theory Spec2Isabelle
  imports Complex_Main "HOL-Library.AList"
begin

section \<open>Data model\<close>

text \<open>
  The account pool of the proxy: \<^verbatim>\<open>account-manager/rate-limits.js\<close>,
  \<^verbatim>\<open>account-manager/selection.js\<close> and the \<^verbatim>\<open>AccountManager\<close> class.

  Conventions of the embedding.
  \<^item> Timestamps and durations are milliseconds, as \<open>int\<close>. Every function that reads
    \<^verbatim>\<open>Date.now()\<close> takes the clock reading \<open>now\<close> as an argument; one call of a
    source function is evaluated at one instant.
  \<^item> A JavaScript value that may be \<^verbatim>\<open>null\<close> or \<^verbatim>\<open>undefined\<close> is an \<open>option\<close>.
  \<^item> A per-model table (a JavaScript object used as a dictionary) is an association
    list in insertion order: \<open>map_of\<close> reads a key, \<open>AList.update\<close> assigns one
    (in place when present, appended otherwise), \<open>AList.delete\<close> removes one.
  \<^item> Quota fractions are rationals: the comparisons of the source are exact on the
    values of finite doubles.
  \<^item> An array is a list, an index (the rotation cursor included) is a \<open>nat\<close>; the
    functions that mutate accounts in place return the updated list.
  \<^item> The \<^verbatim>\<open>onSave\<close> callback is a flag (was one passed?) and a count of its calls.
  \<^item> Log output is not modelled.
\<close>

record rate_limit =
  rl_isRateLimited :: bool
  rl_resetTime :: "int option"

record soft_limit =
  sl_isSoftLimited :: bool
  sl_remainingFraction :: rat
  sl_resetTime :: "int option"
  sl_markedAt :: int

text \<open>
  The fields of an account object that the pool logic reads or writes. Whatever else
  the object carries (refresh tokens, API keys and the like, written by the storage
  and credential modules) is the extension slot of the record scheme.
\<close>

record account =
  email :: string
  source :: "string option"
  isInvalid :: bool
  invalidReason :: "string option"
  invalidAt :: "int option"
  modelRateLimits :: "(string \<times> rate_limit) list option"
  modelSoftLimits :: "(string \<times> soft_limit) list option"
  lastUsed :: "int option"

record settings =
  cooldownDurationMs :: "int option"

text \<open>
  The constants imported from \<^verbatim>\<open>constants.js\<close>; their values are parameters of
  the development.
\<close>

record constants =
  DEFAULT_COOLDOWN_MS :: int
  SOFT_LIMIT_THRESHOLD :: rat
  MAX_WAIT_BEFORE_ERROR_MS :: int

section \<open>JavaScript coercions used by the source\<close>

text \<open>Truthiness of a string-or-null: \<^verbatim>\<open>null\<close> and the empty string are falsy.\<close>

definition truthyStr :: "string option \<Rightarrow> bool" where
  "truthyStr s = (case s of None \<Rightarrow> False | Some t \<Rightarrow> t \<noteq> [])"

text \<open>Truthiness of a number-or-null: \<^verbatim>\<open>null\<close> and \<open>0\<close> are falsy.\<close>

definition truthyNum :: "int option \<Rightarrow> bool" where
  "truthyNum n = (case n of None \<Rightarrow> False | Some k \<Rightarrow> k \<noteq> 0)"

text \<open>A relational operator converts \<^verbatim>\<open>null\<close> to \<open>0\<close>.\<close>

definition toNumber :: "int option \<Rightarrow> int" where
  "toNumber n = (case n of None \<Rightarrow> 0 | Some k \<Rightarrow> k)"

text \<open>\<^verbatim>\<open>a || b\<close> on numbers: the left operand when truthy, else the right one.\<close>

definition orElse :: "int option \<Rightarrow> int \<Rightarrow> int" where
  "orElse a b = (case a of None \<Rightarrow> b | Some k \<Rightarrow> if k \<noteq> 0 then k else b)"

text \<open>A property key is a string: \<^verbatim>\<open>obj[null]\<close> reads the key \<^verbatim>\<open>"null"\<close>.\<close>

definition propertyKey :: "string option \<Rightarrow> string" where
  "propertyKey k = (case k of None \<Rightarrow> ''null'' | Some s \<Rightarrow> s)"

text \<open>\<^verbatim>\<open>xs[i]\<close>: \<^verbatim>\<open>undefined\<close> out of range.\<close>

definition elemAt :: "'a list \<Rightarrow> nat \<Rightarrow> 'a option" where
  "elemAt xs i = (if i < length xs then Some (xs ! i) else None)"

text \<open>\<^verbatim>\<open>accounts.find(pred)\<close>, as the position of the first match.\<close>

fun findIndex :: "('a \<Rightarrow> bool) \<Rightarrow> 'a list \<Rightarrow> nat option" where
  "findIndex P [] = None"
| "findIndex P (x # xs) = (if P x then Some 0 else map_option Suc (findIndex P xs))"

text \<open>\<^verbatim>\<open>acc.modelRateLimits && acc.modelRateLimits[key]\<close>\<close>

definition rateLimitEntry :: "'a account_scheme \<Rightarrow> string \<Rightarrow> rate_limit option" where
  "rateLimitEntry acc key = (case modelRateLimits acc of None \<Rightarrow> None | Some m \<Rightarrow> map_of m key)"

text \<open>\<^verbatim>\<open>acc.modelSoftLimits && acc.modelSoftLimits[key]\<close>\<close>

definition softLimitEntry :: "'a account_scheme \<Rightarrow> string \<Rightarrow> soft_limit option" where
  "softLimitEntry acc key = (case modelSoftLimits acc of None \<Rightarrow> None | Some m \<Rightarrow> map_of m key)"

section \<open>Rate limit management (rate-limits.js)\<close>

definition isAllRateLimited :: "'a account_scheme list \<Rightarrow> string option \<Rightarrow> int \<Rightarrow> bool" where
  "isAllRateLimited accounts modelId now =
     (if length accounts = 0 then True
      else if \<not> truthyStr modelId then False
      else list_all (\<lambda>acc.
             if isInvalid acc then True
             else (let modelLimits = (case modelRateLimits acc of None \<Rightarrow> [] | Some m \<Rightarrow> m)
                   in case map_of modelLimits (propertyKey modelId) of
                        None \<Rightarrow> False
                      | Some limit \<Rightarrow> rl_isRateLimited limit \<and> toNumber (rl_resetTime limit) > now))
           accounts)"

definition getAvailableAccounts ::
  "'a account_scheme list \<Rightarrow> string option \<Rightarrow> int \<Rightarrow> 'a account_scheme list" where
  "getAvailableAccounts accounts modelId now =
     filter (\<lambda>acc.
       if isInvalid acc then False
       else if truthyStr modelId then
         (case rateLimitEntry acc (propertyKey modelId) of
            None \<Rightarrow> True
          | Some limit \<Rightarrow>
              if rl_isRateLimited limit \<and> toNumber (rl_resetTime limit) > now then False else True)
       else True)
     accounts"

definition getInvalidAccounts :: "'a account_scheme list \<Rightarrow> 'a account_scheme list" where
  "getInvalidAccounts accounts = filter (\<lambda>acc. isInvalid acc) accounts"

text \<open>
  \<^verbatim>\<open>clearExpiredLimits\<close> resets, in place, every entry that is limited with
  \<^verbatim>\<open>resetTime <= now\<close>, and returns how many it reset.
\<close>

definition limitExpired :: "int \<Rightarrow> rate_limit \<Rightarrow> bool" where
  "limitExpired now limit = (rl_isRateLimited limit \<and> toNumber (rl_resetTime limit) \<le> now)"

text \<open>The inner loop on one account: how many entries it resets, and the account after.\<close>

definition clearAccountLimits :: "int \<Rightarrow> 'a account_scheme \<Rightarrow> nat \<times> 'a account_scheme" where
  "clearAccountLimits now account =
     (case modelRateLimits account of
        None \<Rightarrow> (0, account)
      | Some m \<Rightarrow>
          (length (filter (\<lambda>(modelId, limit). limitExpired now limit) m),
           account\<lparr>modelRateLimits := Some (map (\<lambda>(modelId, limit).
             (modelId, if limitExpired now limit
                       then limit\<lparr>rl_isRateLimited := False, rl_resetTime := None\<rparr>
                       else limit)) m)\<rparr>))"

definition clearExpiredLimits ::
  "'a account_scheme list \<Rightarrow> int \<Rightarrow> nat \<times> 'a account_scheme list" where
  "clearExpiredLimits accounts now =
     (sum_list (map (\<lambda>account. fst (clearAccountLimits now account)) accounts),
      map (\<lambda>account. snd (clearAccountLimits now account)) accounts)"

definition markRateLimited ::
  "constants \<Rightarrow> 'a account_scheme list \<Rightarrow> string \<Rightarrow> int option \<Rightarrow> settings \<Rightarrow> string option
     \<Rightarrow> int \<Rightarrow> bool \<times> 'a account_scheme list" where
  "markRateLimited K accounts email' resetMs settings modelId now =
     (case findIndex (\<lambda>a. email a = email') accounts of
        None \<Rightarrow> (False, accounts)
      | Some i \<Rightarrow>
          (let account = accounts ! i;
               cooldownMs = orElse resetMs (orElse (cooldownDurationMs settings) (DEFAULT_COOLDOWN_MS K));
               resetTime = now + cooldownMs;
               limits = (case modelRateLimits account of None \<Rightarrow> [] | Some m \<Rightarrow> m)
           in (True,
               accounts[i := account\<lparr>modelRateLimits :=
                 Some (AList.update (propertyKey modelId)
                         \<lparr>rl_isRateLimited = True, rl_resetTime = Some resetTime\<rparr> limits)\<rparr>])))"

definition isSoftLimited ::
  "'a account_scheme option \<Rightarrow> string option \<Rightarrow> rat \<Rightarrow> int \<Rightarrow> bool" where
  "isSoftLimited account modelId threshold now =
     (case account of
        None \<Rightarrow> False
      | Some a \<Rightarrow>
          if \<not> truthyStr modelId then False
          else (case modelSoftLimits a of
                  None \<Rightarrow> False
                | Some m \<Rightarrow>
                    (case map_of m (propertyKey modelId) of
                       None \<Rightarrow> False
                     | Some limit \<Rightarrow>
                         if \<not> sl_isSoftLimited limit then False
                         else if truthyNum (sl_resetTime limit) \<and> toNumber (sl_resetTime limit) \<le> now
                              then False
                              else True)))"

definition getPreferredAccounts ::
  "'a account_scheme list \<Rightarrow> string option \<Rightarrow> rat \<Rightarrow> int \<Rightarrow> 'a account_scheme list" where
  "getPreferredAccounts accounts modelId threshold now =
     filter (\<lambda>acc.
       if isInvalid acc then False
       else if truthyStr modelId \<and>
               (case rateLimitEntry acc (propertyKey modelId) of
                  None \<Rightarrow> False
                | Some limit \<Rightarrow> rl_isRateLimited limit \<and> toNumber (rl_resetTime limit) > now)
            then False
       else if truthyStr modelId \<and> isSoftLimited (Some acc) modelId threshold now then False
       else True)
     accounts"

definition isAllSoftLimited ::
  "'a account_scheme list \<Rightarrow> string option \<Rightarrow> rat \<Rightarrow> int \<Rightarrow> bool" where
  "isAllSoftLimited accounts modelId threshold now =
     (if length accounts = 0 then True
      else if \<not> truthyStr modelId then False
      else (let available = getAvailableAccounts accounts modelId now
            in if length available = 0 then False
               else list_all (\<lambda>acc. isSoftLimited (Some acc) modelId threshold now) available))"

text \<open>
  \<^verbatim>\<open>markSoftLimited\<close> parses the ISO reset instant with \<^verbatim>\<open>new Date(s).getTime()\<close>;
  the parser is the parameter \<open>parseDate\<close> (\<open>None\<close> for a string that is no date).
\<close>

definition markSoftLimited ::
  "(string \<Rightarrow> int option) \<Rightarrow> 'a account_scheme list \<Rightarrow> string \<Rightarrow> string option \<Rightarrow> rat
     \<Rightarrow> string option \<Rightarrow> rat \<Rightarrow> int \<Rightarrow> bool \<times> 'a account_scheme list" where
  "markSoftLimited parseDate accounts email' modelId remainingFraction resetTime threshold now =
     (case findIndex (\<lambda>a. email a = email') accounts of
        None \<Rightarrow> (False, accounts)
      | Some i \<Rightarrow>
          (let account = accounts ! i;
               limits = (case modelSoftLimits account of None \<Rightarrow> [] | Some m \<Rightarrow> m);
               resetMs = (case resetTime of
                            None \<Rightarrow> None
                          | Some s \<Rightarrow> if s \<noteq> [] then parseDate s else None)
           in (True,
               accounts[i := account\<lparr>modelSoftLimits :=
                 Some (AList.update (propertyKey modelId)
                         \<lparr>sl_isSoftLimited = True, sl_remainingFraction = remainingFraction,
                          sl_resetTime = resetMs, sl_markedAt = now\<rparr> limits)\<rparr>])))"

text \<open>
  \<^verbatim>\<open>clearSoftLimit\<close> tests the bare lookup \<^verbatim>\<open>account.modelSoftLimits[modelId]\<close> for
  truthiness and then deletes the property, so here the prototype chain of the table
  shows. A plain object inherits the properties of \<^verbatim>\<open>Object.prototype\<close>; assigning the
  key \<^verbatim>\<open>__proto__\<close> (as \<^verbatim>\<open>markSoftLimited\<close> would for a model of that name) does not
  create an own property but makes the assigned entry the prototype of the table, so
  that the fields of the entry are inherited too, reading \<^verbatim>\<open>__proto__\<close> returns the entry,
  and \<^verbatim>\<open>delete\<close> leaves it in place. An entry stored in the table under \<^verbatim>\<open>__proto__\<close>
  stands for that prototype. (The functions that read an entry by key and then test
  one of its fields need none of this: an inherited function or primitive carries no
  such field, and reads the same as a missing entry.)
\<close>

definition objectPrototypeKeys :: "string list" where
  "objectPrototypeKeys =
     [''__proto__'', ''constructor'', ''hasOwnProperty'', ''isPrototypeOf'',
      ''propertyIsEnumerable'', ''toLocaleString'', ''toString'', ''valueOf'',
      ''__defineGetter__'', ''__defineSetter__'', ''__lookupGetter__'', ''__lookupSetter__'']"

text \<open>Does a key without an own property read as a truthy inherited value?\<close>

definition inheritedTruthy :: "(string \<times> soft_limit) list \<Rightarrow> string \<Rightarrow> bool" where
  "inheritedTruthy m key =
     (key \<in> set objectPrototypeKeys \<or>
      (case map_of m ''__proto__'' of
         None \<Rightarrow> False
       | Some proto \<Rightarrow>
           (key = ''isSoftLimited'' \<and> sl_isSoftLimited proto) \<or>
           (key = ''remainingFraction'' \<and> sl_remainingFraction proto \<noteq> 0) \<or>
           (key = ''resetTime'' \<and> truthyNum (sl_resetTime proto)) \<or>
           (key = ''markedAt'' \<and> sl_markedAt proto \<noteq> 0)))"

text \<open>\<^verbatim>\<open>delete table[key]\<close>: removes an own property, and never the prototype.\<close>

definition deleteProperty ::
  "string \<Rightarrow> (string \<times> soft_limit) list \<Rightarrow> (string \<times> soft_limit) list" where
  "deleteProperty key m = (if key = ''__proto__'' then m else AList.delete key m)"

definition clearSoftLimit ::
  "'a account_scheme list \<Rightarrow> string \<Rightarrow> string option \<Rightarrow> bool \<times> 'a account_scheme list" where
  "clearSoftLimit accounts email' modelId =
     (case findIndex (\<lambda>a. email a = email') accounts of
        None \<Rightarrow> (False, accounts)
      | Some i \<Rightarrow>
          (case modelSoftLimits (accounts ! i) of
             None \<Rightarrow> (False, accounts)
           | Some m \<Rightarrow>
               if map_of m (propertyKey modelId) = None
                  \<and> \<not> inheritedTruthy m (propertyKey modelId)
               then (False, accounts)
               else (True, accounts[i := (accounts ! i)\<lparr>modelSoftLimits :=
                       Some (deleteProperty (propertyKey modelId) m)\<rparr>])))"

text \<open>
  \<^verbatim>\<open>clearExpiredSoftLimits\<close> walks a snapshot of the entries of each account and
  deletes the key of every entry that is soft-limited with a reset time that has passed.
\<close>

definition softLimitExpired :: "int \<Rightarrow> soft_limit \<Rightarrow> bool" where
  "softLimitExpired now limit =
     (sl_isSoftLimited limit \<and> truthyNum (sl_resetTime limit) \<and> toNumber (sl_resetTime limit) \<le> now)"

definition sweepSoftLimits ::
  "int \<Rightarrow> (string \<times> soft_limit) list \<Rightarrow> (string \<times> soft_limit) list \<times> nat" where
  "sweepSoftLimits now m =
     fold (\<lambda>(modelId, limit) (m', cleared).
             if softLimitExpired now limit then (AList.delete modelId m', cleared + 1)
             else (m', cleared))
          m (m, 0)"

definition clearAccountSoftLimits ::
  "int \<Rightarrow> 'a account_scheme \<Rightarrow> nat \<times> 'a account_scheme" where
  "clearAccountSoftLimits now account =
     (case modelSoftLimits account of
        None \<Rightarrow> (0, account)
      | Some m \<Rightarrow>
          (snd (sweepSoftLimits now m),
           account\<lparr>modelSoftLimits := Some (fst (sweepSoftLimits now m))\<rparr>))"

definition clearExpiredSoftLimits ::
  "'a account_scheme list \<Rightarrow> int \<Rightarrow> nat \<times> 'a account_scheme list" where
  "clearExpiredSoftLimits accounts now =
     (sum_list (map (\<lambda>account. fst (clearAccountSoftLimits now account)) accounts),
      map (\<lambda>account. snd (clearAccountSoftLimits now account)) accounts)"

record update_result =
  ur_changed :: bool
  ur_isSoftLimited :: bool

definition updateSoftLimitStatus ::
  "(string \<Rightarrow> int option) \<Rightarrow> 'a account_scheme list \<Rightarrow> string \<Rightarrow> string option \<Rightarrow> rat option
     \<Rightarrow> string option \<Rightarrow> rat \<Rightarrow> int \<Rightarrow> update_result \<times> 'a account_scheme list" where
  "updateSoftLimitStatus parseDate accounts email' modelId remainingFraction resetTime threshold now =
     (case findIndex (\<lambda>a. email a = email') accounts of
        None \<Rightarrow> (\<lparr>ur_changed = False, ur_isSoftLimited = False\<rparr>, accounts)
      | Some i \<Rightarrow>
          (let wasSoftLimited = isSoftLimited (Some (accounts ! i)) modelId threshold now;
               shouldBeSoftLimited =
                 (case remainingFraction of
                    None \<Rightarrow> False
                  | Some f \<Rightarrow> f < threshold \<and> f \<ge> 0)
           in if shouldBeSoftLimited \<and> \<not> wasSoftLimited then
                (\<lparr>ur_changed = True, ur_isSoftLimited = True\<rparr>,
                 snd (markSoftLimited parseDate accounts email' modelId
                        (case remainingFraction of Some f \<Rightarrow> f | None \<Rightarrow> 0) resetTime threshold now))
              else if \<not> shouldBeSoftLimited \<and> wasSoftLimited then
                (\<lparr>ur_changed = True, ur_isSoftLimited = False\<rparr>,
                 snd (clearSoftLimit accounts email' modelId))
              else (\<lparr>ur_changed = False, ur_isSoftLimited = wasSoftLimited\<rparr>, accounts)))"

section \<open>Account selection (selection.js)\<close>

definition isAccountUsable :: "'a account_scheme option \<Rightarrow> string option \<Rightarrow> int \<Rightarrow> bool" where
  "isAccountUsable account modelId now =
     (case account of
        None \<Rightarrow> False
      | Some a \<Rightarrow>
          if isInvalid a then False
          else if truthyStr modelId then
            (case rateLimitEntry a (propertyKey modelId) of
               None \<Rightarrow> True
             | Some limit \<Rightarrow>
                 if rl_isRateLimited limit \<and> toNumber (rl_resetTime limit) > now then False else True)
          else True)"

definition isAccountPreferred ::
  "constants \<Rightarrow> 'a account_scheme option \<Rightarrow> string option \<Rightarrow> int \<Rightarrow> bool" where
  "isAccountPreferred K account modelId now =
     (if \<not> isAccountUsable account modelId now then False
      else if \<not> truthyStr modelId then True
      else \<not> isSoftLimited account modelId (SOFT_LIMIT_THRESHOLD K) now)"

text \<open>
  The scan of \<^verbatim>\<open>pickNext\<close>:
  \<^verbatim>\<open>for (let i = 1; i <= accounts.length; i++) { idx = (index + i) % accounts.length; ... }\<close>,
  returning the first index whose account passes the test.
\<close>

function scanForward ::
  "('a option \<Rightarrow> bool) \<Rightarrow> 'a list \<Rightarrow> nat \<Rightarrow> nat \<Rightarrow> nat option" where
  "scanForward ok accounts index i =
     (if i \<le> length accounts then
        (let idx = (index + i) mod length accounts
         in if ok (elemAt accounts idx) then Some idx
            else scanForward ok accounts index (i + 1))
      else None)"
  by pat_completeness auto
termination
  by (relation "measure (\<lambda>(ok, accounts, index, i). Suc (length accounts) - i)") auto

declare scanForward.simps [simp del]

text \<open>
  What a selection returns, together with the account array after the in-place updates
  and the number of calls of the \<^verbatim>\<open>onSave\<close> callback (\<open>onSave\<close> says whether a
  callback was passed).
\<close>

record 'a pick_result =
  pr_account :: "'a account_scheme option"
  pr_newIndex :: nat
  pr_accounts :: "'a account_scheme list"
  pr_saves :: nat

text \<open>The body of both scans on a hit: stamp \<^verbatim>\<open>lastUsed\<close>, save, return.\<close>

definition useAccount :: "'a account_scheme list \<Rightarrow> nat \<Rightarrow> bool \<Rightarrow> int \<Rightarrow> 'a pick_result" where
  "useAccount accounts idx onSave now =
     (let accounts' = accounts[idx := (accounts ! idx)\<lparr>lastUsed := Some now\<rparr>]
      in \<lparr>pr_account = elemAt accounts' idx, pr_newIndex = idx, pr_accounts = accounts',
          pr_saves = (if onSave then 1 else 0)\<rparr>)"

definition pickNext ::
  "constants \<Rightarrow> 'a account_scheme list \<Rightarrow> nat \<Rightarrow> bool \<Rightarrow> string option \<Rightarrow> bool \<Rightarrow> int
     \<Rightarrow> 'a pick_result" where
  "pickNext K accounts0 currentIndex onSave modelId softLimitEnabled now =
     (let accounts1 = snd (clearExpiredLimits accounts0 now);
          accounts = snd (clearExpiredSoftLimits accounts1 now);
          available = getAvailableAccounts accounts modelId now
      in if length available = 0 then
           \<lparr>pr_account = None, pr_newIndex = currentIndex, pr_accounts = accounts, pr_saves = 0\<rparr>
         else
           (let index = (if currentIndex \<ge> length accounts then 0 else currentIndex);
                preferredHit =
                  (if softLimitEnabled \<and> truthyStr modelId then
                     (if length (getPreferredAccounts accounts modelId (SOFT_LIMIT_THRESHOLD K) now) > 0
                      then scanForward (\<lambda>account. isAccountPreferred K account modelId now)
                             accounts index 1
                      else None)
                   else None)
            in case preferredHit of
                 Some idx \<Rightarrow> useAccount accounts idx onSave now
               | None \<Rightarrow>
                   (case scanForward (\<lambda>account. isAccountUsable account modelId now)
                           accounts index 1 of
                      Some idx \<Rightarrow> useAccount accounts idx onSave now
                    | None \<Rightarrow>
                        \<lparr>pr_account = None, pr_newIndex = currentIndex, pr_accounts = accounts,
                         pr_saves = 0\<rparr>)))"

record 'a sticky_result =
  sr_account :: "'a account_scheme option"
  sr_newIndex :: nat
  sr_isSoftLimited :: bool
  sr_accounts :: "'a account_scheme list"
  sr_saves :: nat

definition getCurrentStickyAccount ::
  "constants \<Rightarrow> 'a account_scheme list \<Rightarrow> nat \<Rightarrow> bool \<Rightarrow> string option \<Rightarrow> int
     \<Rightarrow> 'a sticky_result" where
  "getCurrentStickyAccount K accounts0 currentIndex onSave modelId now =
     (let accounts1 = snd (clearExpiredLimits accounts0 now);
          accounts = snd (clearExpiredSoftLimits accounts1 now)
      in if length accounts = 0 then
           \<lparr>sr_account = None, sr_newIndex = currentIndex, sr_isSoftLimited = False,
            sr_accounts = accounts, sr_saves = 0\<rparr>
         else
           (let index = (if currentIndex \<ge> length accounts then 0 else currentIndex)
            in if isAccountUsable (elemAt accounts index) modelId now then
                 (let accounts' = accounts[index := (accounts ! index)\<lparr>lastUsed := Some now\<rparr>];
                      softLimited =
                        (if truthyStr modelId
                         then isSoftLimited (elemAt accounts' index) modelId (SOFT_LIMIT_THRESHOLD K) now
                         else False)
                  in \<lparr>sr_account = elemAt accounts' index, sr_newIndex = index,
                      sr_isSoftLimited = softLimited, sr_accounts = accounts',
                      sr_saves = (if onSave then 1 else 0)\<rparr>)
               else
                 \<lparr>sr_account = None, sr_newIndex = index, sr_isSoftLimited = False,
                  sr_accounts = accounts, sr_saves = 0\<rparr>))"

record 'a wait_result =
  wr_shouldWait :: bool
  wr_waitMs :: int
  wr_account :: "'a account_scheme option"

definition shouldWaitForCurrentAccount ::
  "constants \<Rightarrow> 'a account_scheme list \<Rightarrow> nat \<Rightarrow> string option \<Rightarrow> int \<Rightarrow> 'a wait_result" where
  "shouldWaitForCurrentAccount K accounts currentIndex modelId now =
     (if length accounts = 0 then
        \<lparr>wr_shouldWait = False, wr_waitMs = 0, wr_account = None\<rparr>
      else
        (let index = (if currentIndex \<ge> length accounts then 0 else currentIndex)
         in case elemAt accounts index of
              None \<Rightarrow> \<lparr>wr_shouldWait = False, wr_waitMs = 0, wr_account = None\<rparr>
            | Some account \<Rightarrow>
                if isInvalid account then
                  \<lparr>wr_shouldWait = False, wr_waitMs = 0, wr_account = None\<rparr>
                else
                  (let waitMs =
                         (if truthyStr modelId then
                            (case rateLimitEntry account (propertyKey modelId) of
                               None \<Rightarrow> 0
                             | Some limit \<Rightarrow>
                                 if rl_isRateLimited limit \<and> truthyNum (rl_resetTime limit)
                                 then toNumber (rl_resetTime limit) - now
                                 else 0)
                          else 0)
                   in if waitMs > 0 \<and> waitMs \<le> MAX_WAIT_BEFORE_ERROR_MS K then
                        \<lparr>wr_shouldWait = True, wr_waitMs = waitMs, wr_account = Some account\<rparr>
                      else
                        \<lparr>wr_shouldWait = False, wr_waitMs = 0, wr_account = Some account\<rparr>)))"

record 'a sticky_pick =
  sp_account :: "'a account_scheme option"
  sp_waitMs :: int
  sp_newIndex :: nat
  sp_accounts :: "'a account_scheme list"
  sp_saves :: nat

text \<open>
  \<^verbatim>\<open>pickStickyAccount\<close>. The sticky account is a reference into the array: where the
  source returns it after a later call has run, the model reads its slot again.
\<close>

definition pickStickyAccount ::
  "constants \<Rightarrow> 'a account_scheme list \<Rightarrow> nat \<Rightarrow> bool \<Rightarrow> string option \<Rightarrow> bool \<Rightarrow> int
     \<Rightarrow> 'a sticky_pick" where
  "pickStickyAccount K accounts currentIndex onSave modelId softLimitEnabled now =
     (let s = getCurrentStickyAccount K accounts currentIndex onSave modelId now
      in case sr_account s of
           Some stickyAccount \<Rightarrow>
             (let keep = \<lparr>sp_account = Some stickyAccount, sp_waitMs = 0,
                          sp_newIndex = sr_newIndex s, sp_accounts = sr_accounts s,
                          sp_saves = sr_saves s\<rparr>
              in if softLimitEnabled \<and> sr_isSoftLimited s \<and> truthyStr modelId then
                   (if length (getPreferredAccounts (sr_accounts s) modelId
                                 (SOFT_LIMIT_THRESHOLD K) now) > 0 then
                      (let n = pickNext K (sr_accounts s) currentIndex onSave modelId True now;
                           keep' = \<lparr>sp_account = elemAt (pr_accounts n) (sr_newIndex s),
                                    sp_waitMs = 0, sp_newIndex = sr_newIndex s,
                                    sp_accounts = pr_accounts n,
                                    sp_saves = sr_saves s + pr_saves n\<rparr>
                       in case pr_account n of
                            None \<Rightarrow> keep'
                          | Some nextAccount \<Rightarrow>
                              if email nextAccount \<noteq> email stickyAccount then
                                \<lparr>sp_account = Some nextAccount, sp_waitMs = 0,
                                 sp_newIndex = pr_newIndex n, sp_accounts = pr_accounts n,
                                 sp_saves = sr_saves s + pr_saves n\<rparr>
                              else keep')
                    else keep)
                 else keep)
         | None \<Rightarrow>
             (let failover =
                    (if length (getAvailableAccounts (sr_accounts s) modelId now) > 0
                     then Some (pickNext K (sr_accounts s) currentIndex onSave modelId
                                  softLimitEnabled now)
                     else None);
                  accounts1 = (case failover of None \<Rightarrow> sr_accounts s | Some n \<Rightarrow> pr_accounts n);
                  saves1 = (case failover of None \<Rightarrow> sr_saves s | Some n \<Rightarrow> sr_saves s + pr_saves n)
              in case (case failover of None \<Rightarrow> None | Some n \<Rightarrow> pr_account n) of
                   Some nextAccount \<Rightarrow>
                     \<lparr>sp_account = Some nextAccount, sp_waitMs = 0,
                      sp_newIndex = (case failover of None \<Rightarrow> currentIndex | Some n \<Rightarrow> pr_newIndex n),
                      sp_accounts = accounts1, sp_saves = saves1\<rparr>
                 | None \<Rightarrow>
                     (let waitInfo = shouldWaitForCurrentAccount K accounts1 currentIndex modelId now
                      in if wr_shouldWait waitInfo then
                           \<lparr>sp_account = None, sp_waitMs = wr_waitMs waitInfo,
                            sp_newIndex = currentIndex, sp_accounts = accounts1,
                            sp_saves = saves1\<rparr>
                         else
                           (let n = pickNext K accounts1 currentIndex onSave modelId
                                      softLimitEnabled now
                            in \<lparr>sp_account = pr_account n, sp_waitMs = 0,
                                sp_newIndex = pr_newIndex n, sp_accounts = pr_accounts n,
                                sp_saves = saves1 + pr_saves n\<rparr>))))"

section \<open>The account manager (AccountManager class)\<close>

record token_entry =
  token :: string
  extractedAt :: int

text \<open>The private fields of the class.\<close>

record 'a account_manager =
  am_accounts :: "'a account_scheme list"
  am_currentIndex :: nat
  am_configPath :: string
  am_settings :: settings
  am_initialized :: bool
  am_softLimitEnabled :: bool
  am_softLimitThreshold :: rat
  am_tokenCache :: "(string \<times> token_entry) list"
  am_projectCache :: "(string \<times> string) list"

definition setSoftLimitEnabled ::
  "bool \<Rightarrow> rat option \<Rightarrow> 'a account_manager \<Rightarrow> 'a account_manager" where
  "setSoftLimitEnabled enabled threshold M =
     (let M' = M\<lparr>am_softLimitEnabled := enabled\<rparr>
      in case threshold of
           None \<Rightarrow> M'
         | Some t \<Rightarrow> if t \<ge> 0 \<and> t \<le> 1 then M'\<lparr>am_softLimitThreshold := t\<rparr> else M')"

text \<open>The method \<^verbatim>\<open>isSoftLimited(email, modelId)\<close> of the class.\<close>

definition managerIsSoftLimited ::
  "'a account_manager \<Rightarrow> string \<Rightarrow> string option \<Rightarrow> int \<Rightarrow> bool" where
  "managerIsSoftLimited M email' modelId now =
     (case findIndex (\<lambda>a. email a = email') (am_accounts M) of
        None \<Rightarrow> False
      | Some i \<Rightarrow>
          isSoftLimited (Some (am_accounts M ! i)) modelId (am_softLimitThreshold M) now)"

text \<open>Decimal rendering of a count inside a template string.\<close>

fun showNat :: "nat \<Rightarrow> string" where
  "showNat n =
     (if n < 10 then [char_of (48 + n)]
      else showNat (n div 10) @ [char_of (48 + n mod 10)])"

declare showNat.simps [simp del]

record account_status =
  as_email :: string
  as_source :: "string option"
  as_modelRateLimits :: "(string \<times> rate_limit) list"
  as_modelSoftLimits :: "(string \<times> soft_limit) list"
  as_isInvalid :: bool
  as_invalidReason :: "string option"
  as_lastUsed :: "int option"

record status =
  st_total :: nat
  st_available :: nat
  st_rateLimited :: nat
  st_softLimited :: nat
  st_invalid :: nat
  st_softLimitEnabled :: bool
  st_softLimitThreshold :: rat
  st_summary :: string
  st_accounts :: "account_status list"

definition getStatus :: "'a account_manager \<Rightarrow> int \<Rightarrow> status" where
  "getStatus M now =
     (let available = getAvailableAccounts (am_accounts M) None now;
          invalid = getInvalidAccounts (am_accounts M);
          rateLimited = filter (\<lambda>a.
            case modelRateLimits a of
              None \<Rightarrow> False
            | Some m \<Rightarrow> list_ex (\<lambda>limit.
                rl_isRateLimited limit \<and> toNumber (rl_resetTime limit) > now) (map snd m))
            (am_accounts M);
          softLimited = filter (\<lambda>a.
            case modelSoftLimits a of
              None \<Rightarrow> False
            | Some m \<Rightarrow> list_ex (\<lambda>limit.
                sl_isSoftLimited limit \<and>
                (\<not> truthyNum (sl_resetTime limit) \<or> toNumber (sl_resetTime limit) > now))
                (map snd m))
            (am_accounts M)
      in \<lparr>st_total = length (am_accounts M),
          st_available = length available,
          st_rateLimited = length rateLimited,
          st_softLimited = length softLimited,
          st_invalid = length invalid,
          st_softLimitEnabled = am_softLimitEnabled M,
          st_softLimitThreshold = am_softLimitThreshold M,
          st_summary =
            showNat (length (am_accounts M)) @ '' total, '' @
            showNat (length available) @ '' available, '' @
            showNat (length rateLimited) @ '' rate-limited, '' @
            showNat (length softLimited) @ '' soft-limited, '' @
            showNat (length invalid) @ '' invalid'',
          st_accounts = map (\<lambda>a.
            \<lparr>as_email = email a,
             as_source = source a,
             as_modelRateLimits = (case modelRateLimits a of None \<Rightarrow> [] | Some m \<Rightarrow> m),
             as_modelSoftLimits = (case modelSoftLimits a of None \<Rightarrow> [] | Some m \<Rightarrow> m),
             as_isInvalid = isInvalid a,
             as_invalidReason =
               (case invalidReason a of
                  None \<Rightarrow> None
                | Some r \<Rightarrow> if r \<noteq> [] then Some r else None),
             as_lastUsed = lastUsed a\<rparr>) (am_accounts M)\<rparr>)"

section \<open>Example accounts\<close>

text \<open>A freshly loaded account: valid, no limits recorded, never used.\<close>

definition newAccount :: "string \<Rightarrow> account" where
  "newAccount e =
     \<lparr>email = e, source = Some ''oauth'', isInvalid = False, invalidReason = None,
      invalidAt = None, modelRateLimits = None, modelSoftLimits = None, lastUsed = None\<rparr>"

text \<open>Sample values for the constants: one minute, 20 percent, two minutes.\<close>

definition exampleConstants :: constants where
  "exampleConstants =
     \<lparr>DEFAULT_COOLDOWN_MS = 60000, SOFT_LIMIT_THRESHOLD = 1 / 5,
      MAX_WAIT_BEFORE_ERROR_MS = 120000\<rparr>"

text \<open>A date parser that knows one instant, nine seconds after the epoch.\<close>

definition exampleParseDate :: "string \<Rightarrow> int option" where
  "exampleParseDate s = (if s = ''1970-01-01T00:00:09.000Z'' then Some 9000 else None)"

section \<open>Availability and the all-limited tests\<close>

lemma getAvailableAccounts_empty_iff:
  "(getAvailableAccounts accounts modelId now = []) =
     list_all (\<lambda>acc. \<not> isAccountUsable (Some acc) modelId now) accounts"
  by (simp add: getAvailableAccounts_def isAccountUsable_def filter_empty_conv list_all_iff)

text \<open>
  Claim C1, as stated, fails for the empty string: it is not \<^verbatim>\<open>null\<close>, but it is falsy,
  so \<open>isAllRateLimited\<close> answers false before looking at any account, while
  \<open>getAvailableAccounts\<close> drops the invalid account and returns the empty list.
\<close>

theorem isAllRateLimited_empty_model_counterexample:
  "isAllRateLimited [(newAccount ''a@example.com'')\<lparr>isInvalid := True\<rparr>] (Some '''') 1000 = False
   \<and> getAvailableAccounts [(newAccount ''a@example.com'')\<lparr>isInvalid := True\<rparr>] (Some '''') 1000 = []"
  by (simp add: isAllRateLimited_def getAvailableAccounts_def truthyStr_def newAccount_def)

text \<open>
  Claim C1 (amended): for every non-empty account sequence and every model id that is
  given as a non-empty string, \<open>isAllRateLimited\<close> is true if and only if
  \<open>getAvailableAccounts\<close> returns the empty list.
\<close>

theorem isAllRateLimited_iff_none_available:
  "accounts \<noteq> [] \<Longrightarrow> truthyStr modelId \<Longrightarrow>
     isAllRateLimited accounts modelId now = (getAvailableAccounts accounts modelId now = [])"
  unfolding isAllRateLimited_def getAvailableAccounts_def filter_empty_conv list_all_iff
  by (auto simp: rateLimitEntry_def Let_def split: option.splits)

theorem isAllRateLimited_iff_none_available_witness:
  "[(newAccount ''a@example.com'')\<lparr>isInvalid := True\<rparr>] \<noteq> []
   \<and> truthyStr (Some ''m'')
   \<and> isAllRateLimited [(newAccount ''a@example.com'')\<lparr>isInvalid := True\<rparr>] (Some ''m'') 1000
   \<and> getAvailableAccounts [(newAccount ''a@example.com'')\<lparr>isInvalid := True\<rparr>] (Some ''m'') 1000 = []"
  using isAllRateLimited_iff_none_available
          [of "[(newAccount ''a@example.com'')\<lparr>isInvalid := True\<rparr>]" "Some ''m''" 1000]
  by (simp add: getAvailableAccounts_def truthyStr_def newAccount_def)

text \<open>
  Claim C7, as stated, fails on the empty sequence: the length test comes first and
  answers true, whatever the model id.
\<close>

theorem isAllRateLimited_no_model_counterexample:
  "isAllRateLimited ([] :: account list) None 1000 = True"
  by (simp add: isAllRateLimited_def)

text \<open>
  Claim C7 (amended): for every non-empty account sequence, \<open>isAllRateLimited\<close> returns
  false whenever the model id is absent (\<^verbatim>\<open>null\<close>, or the empty string).
\<close>

theorem isAllRateLimited_no_model:
  "accounts \<noteq> [] \<Longrightarrow> \<not> truthyStr modelId \<Longrightarrow> isAllRateLimited accounts modelId now = False"
  by (simp add: isAllRateLimited_def)

theorem isAllRateLimited_no_model_witness:
  "[(newAccount ''a@example.com'')\<lparr>isInvalid := True\<rparr>] \<noteq> []
   \<and> \<not> truthyStr None
   \<and> isAllRateLimited [(newAccount ''a@example.com'')\<lparr>isInvalid := True\<rparr>] None 1000 = False"
  using isAllRateLimited_no_model
          [of "[(newAccount ''a@example.com'')\<lparr>isInvalid := True\<rparr>]" None 1000]
  by (simp add: truthyStr_def)

text \<open>
  Claim C8, as stated, fails on the empty sequence: there the set of hard-available
  accounts is empty, and \<open>isAllSoftLimited\<close> answers true.
\<close>

theorem isAllSoftLimited_empty_counterexample:
  "isAllSoftLimited ([] :: account list) (Some ''m'') (1 / 5) 1000 = True
   \<and> getAvailableAccounts ([] :: account list) (Some ''m'') 1000 = []"
  by (simp add: isAllSoftLimited_def getAvailableAccounts_def)

text \<open>
  Claim C8 (amended): for every non-empty account sequence and every model id,
  \<open>isAllSoftLimited\<close> considers only hard-available accounts: it returns false when
  there is none, and otherwise returns true if and only if every hard-available account
  is soft-limited for the model.
\<close>

theorem isAllSoftLimited_iff:
  "accounts \<noteq> [] \<Longrightarrow>
     isAllSoftLimited accounts modelId threshold now =
       (getAvailableAccounts accounts modelId now \<noteq> [] \<and>
        list_all (\<lambda>acc. isSoftLimited (Some acc) modelId threshold now)
          (getAvailableAccounts accounts modelId now))"
  unfolding isAllSoftLimited_def
  by (cases "getAvailableAccounts accounts modelId now") (auto simp: Let_def isSoftLimited_def)

theorem isAllSoftLimited_iff_witness:
  "[(newAccount ''a@example.com'')\<lparr>isInvalid := True\<rparr>, newAccount ''b@example.com''] \<noteq> []
   \<and> getAvailableAccounts
        [(newAccount ''a@example.com'')\<lparr>isInvalid := True\<rparr>, newAccount ''b@example.com'']
        (Some ''m'') 1000 = [newAccount ''b@example.com'']
   \<and> isAllSoftLimited
        [(newAccount ''a@example.com'')\<lparr>isInvalid := True\<rparr>, newAccount ''b@example.com'']
        (Some ''m'') (1 / 5) 1000 = False"
  using isAllSoftLimited_iff
          [of "[(newAccount ''a@example.com'')\<lparr>isInvalid := True\<rparr>, newAccount ''b@example.com'']"
              "Some ''m''" "1 / 5" 1000]
  by (simp add: getAvailableAccounts_def isSoftLimited_def truthyStr_def rateLimitEntry_def
        newAccount_def)

section \<open>Reading a soft limit\<close>

text \<open>
  Claim C10: for every account, model id and any two thresholds, \<open>isSoftLimited\<close>
  returns the same value; the result is decided by the stored entry alone (present,
  flagged, and its reset time, if set, not yet passed), and changing the manager's
  threshold does not change what the manager's \<open>isSoftLimited\<close> reads.
\<close>

theorem isSoftLimited_threshold_irrelevant:
  "isSoftLimited account modelId t1 now = isSoftLimited account modelId t2 now
   \<and> isSoftLimited account modelId t1 now =
       (\<exists>a limit. account = Some a \<and> truthyStr modelId
          \<and> softLimitEntry a (propertyKey modelId) = Some limit
          \<and> sl_isSoftLimited limit
          \<and> \<not> (\<exists>t. sl_resetTime limit = Some t \<and> t \<noteq> 0 \<and> t \<le> now))
   \<and> managerIsSoftLimited (setSoftLimitEnabled enabled threshold M) email' modelId now
       = managerIsSoftLimited M email' modelId now"
proof (intro conjI)
  show "isSoftLimited account modelId t1 now = isSoftLimited account modelId t2 now"
    by (simp add: isSoftLimited_def)
  show "isSoftLimited account modelId t1 now =
       (\<exists>a limit. account = Some a \<and> truthyStr modelId
          \<and> softLimitEntry a (propertyKey modelId) = Some limit
          \<and> sl_isSoftLimited limit
          \<and> \<not> (\<exists>t. sl_resetTime limit = Some t \<and> t \<noteq> 0 \<and> t \<le> now))"
    by (auto simp: isSoftLimited_def softLimitEntry_def truthyNum_def toNumber_def
             split: option.splits)
  show "managerIsSoftLimited (setSoftLimitEnabled enabled threshold M) email' modelId now
       = managerIsSoftLimited M email' modelId now"
    by (simp add: managerIsSoftLimited_def setSoftLimitEnabled_def isSoftLimited_def Let_def
             split: option.splits)
qed

theorem isSoftLimited_threshold_irrelevant_witness:
  "isSoftLimited
     (Some ((newAccount ''a@example.com'')\<lparr>modelSoftLimits := Some [(''m'',
        \<lparr>sl_isSoftLimited = True, sl_remainingFraction = 1 / 10, sl_resetTime = Some 5000,
         sl_markedAt = 900\<rparr>)]\<rparr>)) (Some ''m'') (1 / 5) 1000
   = isSoftLimited
     (Some ((newAccount ''a@example.com'')\<lparr>modelSoftLimits := Some [(''m'',
        \<lparr>sl_isSoftLimited = True, sl_remainingFraction = 1 / 10, sl_resetTime = Some 5000,
         sl_markedAt = 900\<rparr>)]\<rparr>)) (Some ''m'') (1 / 20) 1000
   \<and> isSoftLimited
     (Some ((newAccount ''a@example.com'')\<lparr>modelSoftLimits := Some [(''m'',
        \<lparr>sl_isSoftLimited = True, sl_remainingFraction = 1 / 10, sl_resetTime = Some 5000,
         sl_markedAt = 900\<rparr>)]\<rparr>)) (Some ''m'') (1 / 20) 1000"
  using isSoftLimited_threshold_irrelevant
          [of "Some ((newAccount ''a@example.com'')\<lparr>modelSoftLimits := Some [(''m'',
                 \<lparr>sl_isSoftLimited = True, sl_remainingFraction = 1 / 10, sl_resetTime = Some 5000,
                  sl_markedAt = 900\<rparr>)]\<rparr>)" "Some ''m''" "1 / 5" 1000 "1 / 20"]
  by (simp add: isSoftLimited_def truthyStr_def truthyNum_def toNumber_def propertyKey_def
        newAccount_def)

section \<open>Finding an account by email\<close>

lemma findIndex_first:
  "i < length xs \<Longrightarrow> P (xs ! i) \<Longrightarrow> \<forall>j<i. \<not> P (xs ! j) \<Longrightarrow> findIndex P xs = Some i"
proof (induction xs arbitrary: i)
  case Nil
  then show ?case by simp
next
  case (Cons x xs)
  show ?case
  proof (cases i)
    case 0
    with Cons.prems show ?thesis by simp
  next
    case (Suc k)
    from Cons.prems Suc have "\<not> P x" by auto
    moreover have "findIndex P xs = Some k"
      using Cons.prems Suc by (intro Cons.IH) auto
    ultimately show ?thesis using Suc by simp
  qed
qed

lemma findIndex_Some:
  "findIndex P xs = Some i \<Longrightarrow> i < length xs \<and> P (xs ! i) \<and> (\<forall>j<i. \<not> P (xs ! j))"
proof (induction xs arbitrary: i)
  case Nil
  then show ?case by simp
next
  case (Cons x xs)
  show ?case
  proof (cases "P x")
    case True
    with Cons.prems show ?thesis by simp
  next
    case False
    with Cons.prems obtain k where k: "findIndex P xs = Some k" "i = Suc k" by auto
    from Cons.IH[OF k(1)] False k(2) show ?thesis
      by (auto simp: less_Suc_eq_0_disj)
  qed
qed

section \<open>Marking a hard limit\<close>

text \<open>
  Claim C6, as stated, fails for \<open>resetMs = 0\<close>: the source chains the defaults with
  \<^verbatim>\<open>||\<close>, so a zero falls through to the configured cooldown. With
  \<open>cooldownDurationMs = 5000\<close> at time 1000 the entry resets at 6000, not at 1000.
\<close>

theorem markRateLimited_zero_reset_counterexample:
  "rateLimitEntry
     (snd (markRateLimited exampleConstants [newAccount ''a@example.com''] ''a@example.com''
             (Some 0) \<lparr>cooldownDurationMs = Some 5000\<rparr> (Some ''m'') 1000) ! 0) ''m''
   = Some \<lparr>rl_isRateLimited = True, rl_resetTime = Some 6000\<rparr>"
  by (simp add: markRateLimited_def rateLimitEntry_def orElse_def propertyKey_def newAccount_def)

text \<open>
  Claim C6 (amended): when account \<open>i\<close> is the first one with the given email,
  \<open>markRateLimited\<close> returns true and sets that account's hard-limit entry for the model
  to \<open>{isRateLimited: true, resetTime: now + d}\<close>, whatever was stored before, where
  \<open>d\<close> is \<open>resetMs\<close> when it is neither null nor zero, otherwise
  \<open>settings.cooldownDurationMs\<close> when that is neither absent nor zero, otherwise the
  default cooldown; the entries of other models and the other accounts are left alone.
\<close>

theorem markRateLimited_sets_limit:
  assumes "i < length accounts" and "email (accounts ! i) = email'"
    and "\<forall>j<i. email (accounts ! j) \<noteq> email'"
  shows "fst (markRateLimited K accounts email' resetMs settings modelId now) = True
    \<and> length (snd (markRateLimited K accounts email' resetMs settings modelId now)) = length accounts
    \<and> rateLimitEntry (snd (markRateLimited K accounts email' resetMs settings modelId now) ! i)
          (propertyKey modelId)
        = Some \<lparr>rl_isRateLimited = True,
                rl_resetTime = Some (now +
                  (if resetMs \<noteq> None \<and> resetMs \<noteq> Some 0 then the resetMs
                   else if cooldownDurationMs settings \<noteq> None \<and> cooldownDurationMs settings \<noteq> Some 0
                        then the (cooldownDurationMs settings)
                   else DEFAULT_COOLDOWN_MS K))\<rparr>
    \<and> (\<forall>k. k \<noteq> propertyKey modelId \<longrightarrow>
          rateLimitEntry (snd (markRateLimited K accounts email' resetMs settings modelId now) ! i) k
            = rateLimitEntry (accounts ! i) k)
    \<and> (\<forall>j. j \<noteq> i \<longrightarrow>
          snd (markRateLimited K accounts email' resetMs settings modelId now) ! j = accounts ! j)"
proof -
  have f: "findIndex (\<lambda>a. email a = email') accounts = Some i"
    using assms by (intro findIndex_first) auto
  show ?thesis
    using assms(1)
    by (auto simp: markRateLimited_def f Let_def rateLimitEntry_def update_conv' orElse_def
             split: option.splits)
qed

theorem markRateLimited_sets_limit_witness:
  "rateLimitEntry
     (snd (markRateLimited exampleConstants
             [newAccount ''a@example.com'',
              (newAccount ''b@example.com'')\<lparr>modelRateLimits := Some [(''m'',
                 \<lparr>rl_isRateLimited = False, rl_resetTime = None\<rparr>)]\<rparr>]
             ''b@example.com'' (Some 1000) \<lparr>cooldownDurationMs = Some 5000\<rparr> (Some ''m'') 7000) ! 1)
     ''m''
   = Some \<lparr>rl_isRateLimited = True, rl_resetTime = Some 8000\<rparr>
   \<and> fst (markRateLimited exampleConstants
             [newAccount ''a@example.com'',
              (newAccount ''b@example.com'')\<lparr>modelRateLimits := Some [(''m'',
                 \<lparr>rl_isRateLimited = False, rl_resetTime = None\<rparr>)]\<rparr>]
             ''b@example.com'' (Some 1000) \<lparr>cooldownDurationMs = Some 5000\<rparr> (Some ''m'') 7000)"
  using markRateLimited_sets_limit
          [of 1 "[newAccount ''a@example.com'',
              (newAccount ''b@example.com'')\<lparr>modelRateLimits := Some [(''m'',
                 \<lparr>rl_isRateLimited = False, rl_resetTime = None\<rparr>)]\<rparr>]"
              "''b@example.com''" exampleConstants "Some 1000"
              "\<lparr>cooldownDurationMs = Some 5000\<rparr>" "Some ''m''" 7000]
  by (simp add: newAccount_def propertyKey_def)

section \<open>Updating the soft limit from a quota probe\<close>

text \<open>
  Claim C5, as stated, fails for an account that is soft-limited: a null fraction makes
  \<open>shouldBeSoftLimited\<close> false, so the entry is cleared and \<open>changed\<close> is true.
\<close>

theorem updateSoftLimitStatus_null_counterexample:
  "updateSoftLimitStatus exampleParseDate
     [(newAccount ''a@example.com'')\<lparr>modelSoftLimits := Some [(''m'',
        \<lparr>sl_isSoftLimited = True, sl_remainingFraction = 1 / 10, sl_resetTime = None,
         sl_markedAt = 900\<rparr>)]\<rparr>]
     ''a@example.com'' (Some ''m'') None None (1 / 5) 1000
   = (\<lparr>ur_changed = True, ur_isSoftLimited = False\<rparr>,
      [(newAccount ''a@example.com'')\<lparr>modelSoftLimits := Some []\<rparr>])"
  by (simp add: updateSoftLimitStatus_def isSoftLimited_def clearSoftLimit_def deleteProperty_def
        truthyStr_def truthyNum_def propertyKey_def newAccount_def)

text \<open>
  The key that cannot be deleted, evaluated: an account whose table has the entry as its
  prototype stays as it is, and the call still reports a change.
\<close>

lemma updateSoftLimitStatus_proto_example:
  "updateSoftLimitStatus exampleParseDate
     [(newAccount ''a@example.com'')\<lparr>modelSoftLimits := Some [(''__proto__'',
        \<lparr>sl_isSoftLimited = True, sl_remainingFraction = 1 / 10, sl_resetTime = None,
         sl_markedAt = 900\<rparr>)]\<rparr>]
     ''a@example.com'' (Some ''__proto__'') None None (1 / 5) 1000
   = (\<lparr>ur_changed = True, ur_isSoftLimited = False\<rparr>,
      [(newAccount ''a@example.com'')\<lparr>modelSoftLimits := Some [(''__proto__'',
        \<lparr>sl_isSoftLimited = True, sl_remainingFraction = 1 / 10, sl_resetTime = None,
         sl_markedAt = 900\<rparr>)]\<rparr>])"
  by (simp add: updateSoftLimitStatus_def isSoftLimited_def clearSoftLimit_def deleteProperty_def
        truthyStr_def truthyNum_def propertyKey_def newAccount_def)

text \<open>
  Claim C5 (amended): with a null \<open>remainingFraction\<close>, \<open>updateSoftLimitStatus\<close> never
  marks an account. When the email is unknown, or the account found is not currently
  soft-limited for the model, it is a no-op: every account is left as it was and
  \<open>changed = false\<close>. When the account found is currently soft-limited for the model, it
  returns \<open>changed = true\<close>, \<open>isSoftLimited = false\<close> and removes that one entry from the
  account's soft-limit table, and nothing else: the other entries of the table, in
  their order, every other field of that account (validity, hard limits, last use,
  credentials) and every other account are unchanged. The one key that \<^verbatim>\<open>delete\<close>
  cannot remove is \<^verbatim>\<open>__proto__\<close>: for a model of that name all accounts are unchanged.
\<close>

theorem updateSoftLimitStatus_null_fraction:
  "((\<forall>i. findIndex (\<lambda>a. email a = email') accounts = Some i
          \<longrightarrow> \<not> isSoftLimited (Some (accounts ! i)) modelId threshold now)
      \<longrightarrow> updateSoftLimitStatus parseDate accounts email' modelId None resetTime threshold now
            = (\<lparr>ur_changed = False, ur_isSoftLimited = False\<rparr>, accounts))
   \<and> (\<forall>i. findIndex (\<lambda>a. email a = email') accounts = Some i
          \<and> isSoftLimited (Some (accounts ! i)) modelId threshold now
      \<longrightarrow> fst (updateSoftLimitStatus parseDate accounts email' modelId None resetTime threshold now)
            = \<lparr>ur_changed = True, ur_isSoftLimited = False\<rparr>
          \<and> (\<exists>m. modelSoftLimits (accounts ! i) = Some m
                \<and> snd (updateSoftLimitStatus parseDate accounts email' modelId None resetTime
                         threshold now)
                    = accounts[i := (accounts ! i)\<lparr>modelSoftLimits :=
                        Some (if propertyKey modelId = ''__proto__'' then m
                              else AList.delete (propertyKey modelId) m)\<rparr>])
          \<and> length (snd (updateSoftLimitStatus parseDate accounts email' modelId None resetTime
                threshold now)) = length accounts
          \<and> (\<forall>j. j \<noteq> i \<longrightarrow>
                snd (updateSoftLimitStatus parseDate accounts email' modelId None resetTime
                       threshold now) ! j = accounts ! j)
          \<and> (snd (updateSoftLimitStatus parseDate accounts email' modelId None resetTime
                     threshold now) ! i)\<lparr>modelSoftLimits := modelSoftLimits (accounts ! i)\<rparr>
              = accounts ! i
          \<and> (\<forall>k. k \<noteq> propertyKey modelId \<longrightarrow>
                softLimitEntry (snd (updateSoftLimitStatus parseDate accounts email' modelId None
                                       resetTime threshold now) ! i) k
                  = softLimitEntry (accounts ! i) k)
          \<and> (propertyKey modelId \<noteq> ''__proto__'' \<longrightarrow>
                softLimitEntry (snd (updateSoftLimitStatus parseDate accounts email' modelId None
                                       resetTime threshold now) ! i) (propertyKey modelId) = None)
          \<and> (propertyKey modelId = ''__proto__'' \<longrightarrow>
                snd (updateSoftLimitStatus parseDate accounts email' modelId None resetTime
                       threshold now) = accounts))"
proof (intro conjI impI allI)
  assume "\<forall>i. findIndex (\<lambda>a. email a = email') accounts = Some i
          \<longrightarrow> \<not> isSoftLimited (Some (accounts ! i)) modelId threshold now"
  then show "updateSoftLimitStatus parseDate accounts email' modelId None resetTime threshold now
            = (\<lparr>ur_changed = False, ur_isSoftLimited = False\<rparr>, accounts)"
    by (simp add: updateSoftLimitStatus_def split: option.splits)
next
  fix i
  let ?r = "updateSoftLimitStatus parseDate accounts email' modelId None resetTime threshold now"
  let ?key = "propertyKey modelId"
  assume a: "findIndex (\<lambda>a. email a = email') accounts = Some i
          \<and> isSoftLimited (Some (accounts ! i)) modelId threshold now"
  then have i: "i < length accounts" using findIndex_Some by fastforce
  from a obtain m limit where m: "modelSoftLimits (accounts ! i) = Some m"
      "map_of m ?key = Some limit"
    by (auto simp: isSoftLimited_def split: option.splits if_splits)
  let ?m' = "if ?key = ''__proto__'' then m else AList.delete ?key m"
  have r: "?r = (\<lparr>ur_changed = True, ur_isSoftLimited = False\<rparr>,
                 accounts[i := (accounts ! i)\<lparr>modelSoftLimits := Some ?m'\<rparr>])"
    using a m by (simp add: updateSoftLimitStatus_def clearSoftLimit_def deleteProperty_def)
  show "fst ?r = \<lparr>ur_changed = True, ur_isSoftLimited = False\<rparr>"
    by (simp add: r)
  show "\<exists>m. modelSoftLimits (accounts ! i) = Some m
          \<and> snd ?r = accounts[i := (accounts ! i)\<lparr>modelSoftLimits :=
                        Some (if ?key = ''__proto__'' then m else AList.delete ?key m)\<rparr>]"
    using m(1) by (intro exI[of _ m]) (simp add: r)
  show "length (snd ?r) = length accounts"
    by (simp add: r)
  show "(snd ?r ! i)\<lparr>modelSoftLimits := modelSoftLimits (accounts ! i)\<rparr> = accounts ! i"
    using i by (simp add: r)
  show "softLimitEntry (snd ?r ! i) ?key = None" if "?key \<noteq> ''__proto__''"
    using i that by (simp add: r softLimitEntry_def delete_conv')
  show "snd ?r = accounts" if "?key = ''__proto__''"
  proof -
    have "(accounts ! i)\<lparr>modelSoftLimits := Some m\<rparr> = accounts ! i"
      using m(1) by simp
    with that show ?thesis by (simp add: r)
  qed
  {
    fix j assume "j \<noteq> i"
    then show "snd ?r ! j = accounts ! j"
      by (simp add: r)
  }
  {
    fix k assume "k \<noteq> ?key"
    then show "softLimitEntry (snd ?r ! i) k = softLimitEntry (accounts ! i) k"
      using i m(1) by (simp add: r softLimitEntry_def delete_conv')
  }
qed

theorem updateSoftLimitStatus_null_fraction_witness:
  "findIndex (\<lambda>a. email a = ''b@example.com'')
     [newAccount ''a@example.com'',
      (newAccount ''b@example.com'')
        \<lparr>modelRateLimits := Some [(''m'', \<lparr>rl_isRateLimited = True, rl_resetTime = Some 9000\<rparr>)],
         modelSoftLimits := Some
           [(''m'', \<lparr>sl_isSoftLimited = True, sl_remainingFraction = 1 / 10,
                    sl_resetTime = Some 9000, sl_markedAt = 900\<rparr>),
            (''n'', \<lparr>sl_isSoftLimited = True, sl_remainingFraction = 3 / 20,
                    sl_resetTime = None, sl_markedAt = 950\<rparr>)],
         lastUsed := Some 500\<rparr>] = Some 1
   \<and> isSoftLimited
       (Some ((newAccount ''b@example.com'')
        \<lparr>modelRateLimits := Some [(''m'', \<lparr>rl_isRateLimited = True, rl_resetTime = Some 9000\<rparr>)],
         modelSoftLimits := Some
           [(''m'', \<lparr>sl_isSoftLimited = True, sl_remainingFraction = 1 / 10,
                    sl_resetTime = Some 9000, sl_markedAt = 900\<rparr>),
            (''n'', \<lparr>sl_isSoftLimited = True, sl_remainingFraction = 3 / 20,
                    sl_resetTime = None, sl_markedAt = 950\<rparr>)],
         lastUsed := Some 500\<rparr>)) (Some ''m'') (1 / 5) 1000
   \<and> updateSoftLimitStatus exampleParseDate
     [newAccount ''a@example.com'',
      (newAccount ''b@example.com'')
        \<lparr>modelRateLimits := Some [(''m'', \<lparr>rl_isRateLimited = True, rl_resetTime = Some 9000\<rparr>)],
         modelSoftLimits := Some
           [(''m'', \<lparr>sl_isSoftLimited = True, sl_remainingFraction = 1 / 10,
                    sl_resetTime = Some 9000, sl_markedAt = 900\<rparr>),
            (''n'', \<lparr>sl_isSoftLimited = True, sl_remainingFraction = 3 / 20,
                    sl_resetTime = None, sl_markedAt = 950\<rparr>)],
         lastUsed := Some 500\<rparr>]
     ''b@example.com'' (Some ''m'') None None (1 / 5) 1000
   = (\<lparr>ur_changed = True, ur_isSoftLimited = False\<rparr>,
      [newAccount ''a@example.com'',
       (newAccount ''b@example.com'')
        \<lparr>modelRateLimits := Some [(''m'', \<lparr>rl_isRateLimited = True, rl_resetTime = Some 9000\<rparr>)],
         modelSoftLimits := Some
           [(''n'', \<lparr>sl_isSoftLimited = True, sl_remainingFraction = 3 / 20,
                    sl_resetTime = None, sl_markedAt = 950\<rparr>)],
         lastUsed := Some 500\<rparr>])
   \<and> \<not> isSoftLimited (Some (newAccount ''a@example.com'')) (Some ''m'') (1 / 5) 1000
   \<and> updateSoftLimitStatus exampleParseDate
     [newAccount ''a@example.com'',
      (newAccount ''b@example.com'')
        \<lparr>modelRateLimits := Some [(''m'', \<lparr>rl_isRateLimited = True, rl_resetTime = Some 9000\<rparr>)],
         modelSoftLimits := Some
           [(''m'', \<lparr>sl_isSoftLimited = True, sl_remainingFraction = 1 / 10,
                    sl_resetTime = Some 9000, sl_markedAt = 900\<rparr>),
            (''n'', \<lparr>sl_isSoftLimited = True, sl_remainingFraction = 3 / 20,
                    sl_resetTime = None, sl_markedAt = 950\<rparr>)],
         lastUsed := Some 500\<rparr>]
     ''a@example.com'' (Some ''m'') None None (1 / 5) 1000
   = (\<lparr>ur_changed = False, ur_isSoftLimited = False\<rparr>,
      [newAccount ''a@example.com'',
       (newAccount ''b@example.com'')
        \<lparr>modelRateLimits := Some [(''m'', \<lparr>rl_isRateLimited = True, rl_resetTime = Some 9000\<rparr>)],
         modelSoftLimits := Some
           [(''m'', \<lparr>sl_isSoftLimited = True, sl_remainingFraction = 1 / 10,
                    sl_resetTime = Some 9000, sl_markedAt = 900\<rparr>),
            (''n'', \<lparr>sl_isSoftLimited = True, sl_remainingFraction = 3 / 20,
                    sl_resetTime = None, sl_markedAt = 950\<rparr>)],
         lastUsed := Some 500\<rparr>])"
proof -
  let ?A = "newAccount ''a@example.com''"
  let ?B = "(newAccount ''b@example.com'')
        \<lparr>modelRateLimits := Some [(''m'', \<lparr>rl_isRateLimited = True, rl_resetTime = Some 9000\<rparr>)],
         modelSoftLimits := Some
           [(''m'', \<lparr>sl_isSoftLimited = True, sl_remainingFraction = 1 / 10,
                    sl_resetTime = Some 9000, sl_markedAt = 900\<rparr>),
            (''n'', \<lparr>sl_isSoftLimited = True, sl_remainingFraction = 3 / 20,
                    sl_resetTime = None, sl_markedAt = 950\<rparr>)],
         lastUsed := Some 500\<rparr>"
  have fb: "findIndex (\<lambda>a. email a = ''b@example.com'') [?A, ?B] = Some 1"
    by (simp add: newAccount_def)
  have fa: "findIndex (\<lambda>a. email a = ''a@example.com'') [?A, ?B] = Some 0"
    by (simp add: newAccount_def)
  have sb: "isSoftLimited (Some ?B) (Some ''m'') (1 / 5) 1000"
    by (simp add: isSoftLimited_def truthyStr_def truthyNum_def toNumber_def propertyKey_def
          newAccount_def)
  have sa: "\<not> isSoftLimited (Some ?A) (Some ''m'') (1 / 5) 1000"
    by (simp add: isSoftLimited_def newAccount_def)
  have key: "propertyKey (Some ''m'') = ''m''" by (simp add: propertyKey_def)
  note clear = updateSoftLimitStatus_null_fraction
         [of "''b@example.com''" "[?A, ?B]" "Some ''m''" "1 / 5" 1000 exampleParseDate None]
  note noop = updateSoftLimitStatus_null_fraction
         [of "''a@example.com''" "[?A, ?B]" "Some ''m''" "1 / 5" 1000 exampleParseDate None]
  from clear fb sb key
  have "updateSoftLimitStatus exampleParseDate [?A, ?B] ''b@example.com'' (Some ''m'') None None
          (1 / 5) 1000
        = (\<lparr>ur_changed = True, ur_isSoftLimited = False\<rparr>,
           [?A, ?B\<lparr>modelSoftLimits := Some
              [(''n'', \<lparr>sl_isSoftLimited = True, sl_remainingFraction = 3 / 20,
                       sl_resetTime = None, sl_markedAt = 950\<rparr>)]\<rparr>])"
    by (simp add: prod_eq_iff newAccount_def)
  moreover from noop fa sa
  have "updateSoftLimitStatus exampleParseDate [?A, ?B] ''a@example.com'' (Some ''m'') None None
          (1 / 5) 1000
        = (\<lparr>ur_changed = False, ur_isSoftLimited = False\<rparr>, [?A, ?B])"
    by simp
  ultimately show ?thesis using fb sb sa by (simp add: newAccount_def)
qed

section \<open>The status snapshot\<close>

lemma truncate_fields:
  "email (account.truncate a) = email a"
  "source (account.truncate a) = source a"
  "isInvalid (account.truncate a) = isInvalid a"
  "invalidReason (account.truncate a) = invalidReason a"
  "modelRateLimits (account.truncate a) = modelRateLimits a"
  "modelSoftLimits (account.truncate a) = modelSoftLimits a"
  "lastUsed (account.truncate a) = lastUsed a"
  by (simp_all add: account.truncate_def)

text \<open>
  The snapshot of a manager is the snapshot of the manager whose accounts are cut down
  to the fields of the account record, and whose other private state is blanked.
\<close>

lemma getStatus_truncate:
  "getStatus M now =
     getStatus \<lparr>am_accounts = map account.truncate (am_accounts M), am_currentIndex = 0,
                am_configPath = [], am_settings = \<lparr>cooldownDurationMs = None\<rparr>,
                am_initialized = False, am_softLimitEnabled = am_softLimitEnabled M,
                am_softLimitThreshold = am_softLimitThreshold M, am_tokenCache = [],
                am_projectCache = []\<rparr> now"
  by (simp add: getStatus_def getAvailableAccounts_def getInvalidAccounts_def filter_map o_def
        truncate_fields Let_def truthyStr_def)

text \<open>
  Claim C9: the per-account records of the \<open>getStatus\<close> snapshot are built from
  \<open>email\<close>, \<open>source\<close>, \<open>modelRateLimits\<close>, \<open>modelSoftLimits\<close>, \<open>isInvalid\<close>,
  \<open>invalidReason\<close> and \<open>lastUsed\<close> alone: two pool states whose accounts agree on the
  fields of the account record, and differ at most in what else the account objects
  carry (their credentials) and in the token and project caches, produce the same
  snapshot.
\<close>

theorem getStatus_hides_credentials:
  fixes M1 :: "'a account_manager" and M2 :: "'b account_manager"
  assumes "map account.truncate (am_accounts M1) = map account.truncate (am_accounts M2)"
    and "am_softLimitEnabled M1 = am_softLimitEnabled M2"
    and "am_softLimitThreshold M1 = am_softLimitThreshold M2"
  shows "getStatus M1 now = getStatus M2 now"
  by (subst getStatus_truncate, subst (2) getStatus_truncate) (simp add: assms)

theorem getStatus_hides_credentials_witness:
  "getStatus
     \<lparr>am_accounts = [account.extend (newAccount ''a@example.com'') ''refresh-token-1'',
                     account.extend ((newAccount ''b@example.com'')\<lparr>isInvalid := True\<rparr>) ''key-1''],
      am_currentIndex = 0, am_configPath = ''accounts.json'',
      am_settings = \<lparr>cooldownDurationMs = None\<rparr>, am_initialized = True,
      am_softLimitEnabled = True, am_softLimitThreshold = 1 / 5,
      am_tokenCache = [(''a@example.com'', \<lparr>token = ''ya29.A'', extractedAt = 900\<rparr>)],
      am_projectCache = []\<rparr> 1000
   = getStatus
     \<lparr>am_accounts = [account.extend (newAccount ''a@example.com'') ''refresh-token-2'',
                     account.extend ((newAccount ''b@example.com'')\<lparr>isInvalid := True\<rparr>) ''key-2''],
      am_currentIndex = 0, am_configPath = ''accounts.json'',
      am_settings = \<lparr>cooldownDurationMs = None\<rparr>, am_initialized = True,
      am_softLimitEnabled = True, am_softLimitThreshold = 1 / 5,
      am_tokenCache = [(''a@example.com'', \<lparr>token = ''ya29.B'', extractedAt = 950\<rparr>)],
      am_projectCache = []\<rparr> 1000
   \<and> account.extend (newAccount ''a@example.com'') ''refresh-token-1''
       \<noteq> account.extend (newAccount ''a@example.com'') ''refresh-token-2''"
proof -
  have "getStatus
     \<lparr>am_accounts = [account.extend (newAccount ''a@example.com'') ''refresh-token-1'',
                     account.extend ((newAccount ''b@example.com'')\<lparr>isInvalid := True\<rparr>) ''key-1''],
      am_currentIndex = 0, am_configPath = ''accounts.json'',
      am_settings = \<lparr>cooldownDurationMs = None\<rparr>, am_initialized = True,
      am_softLimitEnabled = True, am_softLimitThreshold = 1 / 5,
      am_tokenCache = [(''a@example.com'', \<lparr>token = ''ya29.A'', extractedAt = 900\<rparr>)],
      am_projectCache = []\<rparr> 1000
   = getStatus
     \<lparr>am_accounts = [account.extend (newAccount ''a@example.com'') ''refresh-token-2'',
                     account.extend ((newAccount ''b@example.com'')\<lparr>isInvalid := True\<rparr>) ''key-2''],
      am_currentIndex = 0, am_configPath = ''accounts.json'',
      am_settings = \<lparr>cooldownDurationMs = None\<rparr>, am_initialized = True,
      am_softLimitEnabled = True, am_softLimitThreshold = 1 / 5,
      am_tokenCache = [(''a@example.com'', \<lparr>token = ''ya29.B'', extractedAt = 950\<rparr>)],
      am_projectCache = []\<rparr> 1000"
    by (rule getStatus_hides_credentials)
       (simp_all add: account.truncate_def account.extend_def newAccount_def)
  moreover have "account.extend (newAccount ''a@example.com'') ''refresh-token-1''
       \<noteq> account.extend (newAccount ''a@example.com'') ''refresh-token-2''"
    by (simp add: account.extend_def newAccount_def)
  ultimately show ?thesis by simp
qed

section \<open>The expiry sweeps\<close>

lemma clearExpiredLimits_snd:
  "snd (clearExpiredLimits accounts now) = map (\<lambda>a. snd (clearAccountLimits now a)) accounts"
  by (simp add: clearExpiredLimits_def)

lemma clearExpiredSoftLimits_snd:
  "snd (clearExpiredSoftLimits accounts now) = map (\<lambda>a. snd (clearAccountSoftLimits now a)) accounts"
  by (simp add: clearExpiredSoftLimits_def)

lemma clearAccountLimits_fields:
  "isInvalid (snd (clearAccountLimits now a)) = isInvalid a"
  "email (snd (clearAccountLimits now a)) = email a"
  "modelSoftLimits (snd (clearAccountLimits now a)) = modelSoftLimits a"
  by (simp_all add: clearAccountLimits_def split: option.splits)

lemma clearAccountSoftLimits_fields:
  "isInvalid (snd (clearAccountSoftLimits now a)) = isInvalid a"
  "email (snd (clearAccountSoftLimits now a)) = email a"
  "modelRateLimits (snd (clearAccountSoftLimits now a)) = modelRateLimits a"
  by (simp_all add: clearAccountSoftLimits_def split: option.splits)

lemma clearAccountLimits_entry:
  "rateLimitEntry (snd (clearAccountLimits now a)) k =
     map_option (\<lambda>limit. if limitExpired now limit
                          then limit\<lparr>rl_isRateLimited := False, rl_resetTime := None\<rparr>
                          else limit)
                (rateLimitEntry a k)"
  by (simp add: clearAccountLimits_def rateLimitEntry_def map_of_map split: option.splits)

lemma clearAccountSoftLimits_entry:
  "rateLimitEntry (snd (clearAccountSoftLimits now a)) k = rateLimitEntry a k"
  by (simp add: rateLimitEntry_def clearAccountSoftLimits_fields)

text \<open>An entry that is limited with a reset time still ahead is not touched by the sweep.\<close>

lemma sweep_keeps_active_entry:
  assumes "rateLimitEntry a k = Some limit" and "rl_isRateLimited limit"
    and "toNumber (rl_resetTime limit) > now"
  shows "rateLimitEntry (snd (clearAccountSoftLimits now (snd (clearAccountLimits now a)))) k
           = Some limit"
  using assms
  by (simp add: clearAccountSoftLimits_entry clearAccountLimits_entry limitExpired_def)

text \<open>The sweeps do not change which accounts are usable at the instant of the sweep.\<close>

lemma isAccountUsable_sweep:
  "isAccountUsable (Some (snd (clearAccountSoftLimits now (snd (clearAccountLimits now a)))))
     modelId now = isAccountUsable (Some a) modelId now"
  by (auto simp: isAccountUsable_def clearAccountSoftLimits_fields clearAccountLimits_fields
        clearAccountSoftLimits_entry clearAccountLimits_entry limitExpired_def toNumber_def
        split: option.splits)

lemma getAvailableAccounts_filter:
  "getAvailableAccounts accounts modelId now =
     filter (\<lambda>a. isAccountUsable (Some a) modelId now) accounts"
  by (simp add: getAvailableAccounts_def isAccountUsable_def)

lemma getAvailableAccounts_sweep:
  "(getAvailableAccounts
      (snd (clearExpiredSoftLimits (snd (clearExpiredLimits accounts now)) now)) modelId now = [])
   = (getAvailableAccounts accounts modelId now = [])"
  by (simp add: getAvailableAccounts_filter clearExpiredLimits_snd clearExpiredSoftLimits_snd
        filter_empty_conv isAccountUsable_sweep)

lemma getPreferredAccounts_filter:
  "getPreferredAccounts accounts modelId threshold now =
     filter (\<lambda>a. isAccountPreferred K (Some a) modelId now) accounts"
  unfolding getPreferredAccounts_def isAccountPreferred_def isAccountUsable_def
  by (rule filter_cong) (auto simp: isSoftLimited_def split: option.splits)

lemma isAccountPreferred_usable:
  "isAccountPreferred K account modelId now \<Longrightarrow> isAccountUsable account modelId now"
  by (simp add: isAccountPreferred_def split: if_splits)

lemma sweep_fold_lookup:
  "map_of (fst (fold (\<lambda>(modelId, limit) (m', cleared).
                        if softLimitExpired now limit then (AList.delete modelId m', cleared + 1)
                        else (m', cleared))
                     es (m0, c))) k
   = (if \<exists>l. (k, l) \<in> set es \<and> softLimitExpired now l then None else map_of m0 k)"
proof (induction es arbitrary: m0 c)
  case Nil
  show ?case by simp
next
  case (Cons e es)
  obtain k' l' where e: "e = (k', l')" by (cases e)
  show ?case
    by (cases "softLimitExpired now l'") (auto simp: e Cons.IH delete_conv')
qed

text \<open>
  In a table with distinct keys (as every JavaScript object is), the soft sweep removes
  exactly the entries that have expired.
\<close>

lemma sweepSoftLimits_lookup:
  assumes "distinct (map fst m)"
  shows "map_of (fst (sweepSoftLimits now m)) k =
           (case map_of m k of
              None \<Rightarrow> None
            | Some l \<Rightarrow> if softLimitExpired now l then None else Some l)"
proof -
  have "(\<exists>l. (k, l) \<in> set m \<and> softLimitExpired now l)
          = (\<exists>l. map_of m k = Some l \<and> softLimitExpired now l)"
    using assms by (simp add: map_of_eq_Some_iff)
  then show ?thesis
    unfolding sweepSoftLimits_def sweep_fold_lookup
    by (auto split: option.splits)
qed

lemma isSoftLimited_sweep:
  assumes "\<forall>m. modelSoftLimits a = Some m \<longrightarrow> distinct (map fst m)"
  shows "isSoftLimited (Some (snd (clearAccountSoftLimits now (snd (clearAccountLimits now a)))))
           modelId threshold now
         = isSoftLimited (Some a) modelId threshold now"
proof (cases "modelSoftLimits a")
  case None
  then show ?thesis
    by (simp add: isSoftLimited_def clearAccountSoftLimits_def clearAccountLimits_fields)
next
  case (Some m)
  with assms have "distinct (map fst m)" by simp
  from sweepSoftLimits_lookup[OF this] Some show ?thesis
    by (auto simp: isSoftLimited_def clearAccountSoftLimits_def clearAccountLimits_fields
          softLimitExpired_def split: option.splits)
qed

text \<open>So the sweeps do not change which accounts are preferred either.\<close>

lemma isAccountPreferred_sweep:
  assumes "\<forall>m. modelSoftLimits a = Some m \<longrightarrow> distinct (map fst m)"
  shows "isAccountPreferred K
           (Some (snd (clearAccountSoftLimits now (snd (clearAccountLimits now a))))) modelId now
         = isAccountPreferred K (Some a) modelId now"
  by (simp add: isAccountPreferred_def isAccountUsable_sweep isSoftLimited_sweep[OF assms])

section \<open>The forward scan\<close>

lemma scanForward_Some:
  "scanForward ok accounts index i = Some idx \<Longrightarrow>
     \<exists>k. i \<le> k \<and> k \<le> length accounts \<and> idx = (index + k) mod length accounts
        \<and> ok (elemAt accounts idx)
        \<and> (\<forall>j. i \<le> j \<and> j < k \<longrightarrow> \<not> ok (elemAt accounts ((index + j) mod length accounts)))"
proof (induction ok accounts index i rule: scanForward.induct)
  case (1 ok accounts index i)
  show ?case
  proof (cases "i \<le> length accounts")
    case False
    with "1.prems" show ?thesis by (simp add: scanForward.simps)
  next
    case inRange: True
    show ?thesis
    proof (cases "ok (elemAt accounts ((index + i) mod length accounts))")
      case True
      with inRange "1.prems" have "idx = (index + i) mod length accounts"
        by (simp add: scanForward.simps)
      with True inRange show ?thesis by (intro exI[of _ i]) auto
    next
      case False
      with inRange "1.prems" have "scanForward ok accounts index (i + 1) = Some idx"
        by (simp add: scanForward.simps)
      from "1.IH"[OF inRange refl False this]
      obtain k where k: "i + 1 \<le> k" "k \<le> length accounts"
          "idx = (index + k) mod length accounts" "ok (elemAt accounts idx)"
          "\<forall>j. i + 1 \<le> j \<and> j < k \<longrightarrow> \<not> ok (elemAt accounts ((index + j) mod length accounts))"
        by blast
      have "\<forall>j. i \<le> j \<and> j < k \<longrightarrow> \<not> ok (elemAt accounts ((index + j) mod length accounts))"
      proof (intro allI impI)
        fix j assume j: "i \<le> j \<and> j < k"
        show "\<not> ok (elemAt accounts ((index + j) mod length accounts))"
        proof (cases "j = i")
          case True
          with False show ?thesis by simp
        next
          case False
          with j have "i + 1 \<le> j \<and> j < k" by simp
          with k(5) show ?thesis by blast
        qed
      qed
      with k show ?thesis by (intro exI[of _ k]) auto
    qed
  qed
qed

lemma scanForward_None:
  "scanForward ok accounts index i = None \<Longrightarrow> i \<le> j \<Longrightarrow> j \<le> length accounts \<Longrightarrow>
     \<not> ok (elemAt accounts ((index + j) mod length accounts))"
proof (induction ok accounts index i rule: scanForward.induct)
  case (1 ok accounts index i)
  from "1.prems" have inRange: "i \<le> length accounts" by simp
  with "1.prems"(1) have here: "\<not> ok (elemAt accounts ((index + i) mod length accounts))"
    by (auto simp: scanForward.simps[of ok accounts index i] Let_def split: if_splits)
  with inRange "1.prems"(1) have rest: "scanForward ok accounts index (i + 1) = None"
    by (simp add: scanForward.simps[of ok accounts index i])
  show ?case
  proof (cases "j = i")
    case True
    with here show ?thesis by simp
  next
    case False
    with "1.prems" have "i + 1 \<le> j" by simp
    from "1.IH"[OF inRange refl here rest this "1.prems"(3)] show ?thesis .
  qed
qed

text \<open>From a cursor inside the array, one cycle of offsets \<open>1..n\<close> reaches every index.\<close>

lemma forward_offset_exists:
  fixes idx index n :: nat
  assumes "idx < n" and "index < n"
  shows "\<exists>j. 1 \<le> j \<and> j \<le> n \<and> (index + j) mod n = idx"
proof (cases "index < idx")
  case True
  with assms have "(index + (idx - index)) mod n = idx" by simp
  with True assms show ?thesis by (intro exI[of _ "idx - index"]) auto
next
  case False
  with assms have "index + (idx + n - index) = idx + n" by simp
  then have "(index + (idx + n - index)) mod n = idx" using assms by simp
  with False assms show ?thesis by (intro exI[of _ "idx + n - index"]) auto
qed

lemma scanForward_first_hit:
  assumes "index < length accounts" and "\<exists>a \<in> set accounts. ok (Some a)"
  shows "\<exists>i. 1 \<le> i \<and> i \<le> length accounts
           \<and> scanForward ok accounts index 1 = Some ((index + i) mod length accounts)
           \<and> ok (Some (accounts ! ((index + i) mod length accounts)))
           \<and> (\<forall>j. 1 \<le> j \<and> j < i \<longrightarrow>
                 \<not> ok (Some (accounts ! ((index + j) mod length accounts))))"
proof -
  let ?n = "length accounts"
  have n: "0 < ?n" using assms(1) by (cases accounts) auto
  have at: "elemAt accounts (m mod ?n) = Some (accounts ! (m mod ?n))" for m
    using n by (simp add: elemAt_def)
  from assms(2) obtain idx where idx: "idx < ?n" "ok (Some (accounts ! idx))"
    by (auto simp: in_set_conv_nth)
  from forward_offset_exists[OF idx(1) assms(1)]
  obtain j where j: "1 \<le> j" "j \<le> ?n" "(index + j) mod ?n = idx" by blast
  have "scanForward ok accounts index 1 \<noteq> None"
  proof
    assume "scanForward ok accounts index 1 = None"
    from scanForward_None[OF this j(1) j(2)] idx(2) j(3) at[of "index + j"]
    show False by simp
  qed
  then obtain hit where hit: "scanForward ok accounts index 1 = Some hit" by blast
  from scanForward_Some[OF hit]
  obtain k where k: "1 \<le> k" "k \<le> ?n" "hit = (index + k) mod ?n" "ok (elemAt accounts hit)"
      "\<forall>j. 1 \<le> j \<and> j < k \<longrightarrow> \<not> ok (elemAt accounts ((index + j) mod ?n))"
    by blast
  show ?thesis
    using k hit at by (intro exI[of _ k]) auto
qed

section \<open>Round-robin selection\<close>

lemma isAccountUsable_elemAt:
  "isAccountUsable (elemAt accounts idx) modelId now \<Longrightarrow>
     idx < length accounts \<and> isAccountUsable (Some (accounts ! idx)) modelId now"
  by (cases "idx < length accounts") (simp_all add: elemAt_def isAccountUsable_def)

lemma isAccountUsable_lastUsed:
  "isAccountUsable (Some (a\<lparr>lastUsed := t\<rparr>)) modelId now = isAccountUsable (Some a) modelId now"
  by (simp add: isAccountUsable_def rateLimitEntry_def)

lemma useAccount_result:
  "idx < length accounts \<Longrightarrow>
     useAccount accounts idx onSave now =
       \<lparr>pr_account = Some ((accounts ! idx)\<lparr>lastUsed := Some now\<rparr>), pr_newIndex = idx,
        pr_accounts = accounts[idx := (accounts ! idx)\<lparr>lastUsed := Some now\<rparr>],
        pr_saves = (if onSave then 1 else 0)\<rparr>"
  by (simp add: useAccount_def elemAt_def Let_def)

text \<open>Whatever \<open>pickNext\<close> returns was found usable by one of the two scans.\<close>

lemma pickNext_Some:
  assumes "pr_account (pickNext K accounts currentIndex onSave modelId softLimitEnabled now) = Some a"
  shows "\<exists>idx. idx < length accounts
      \<and> isAccountUsable
           (Some (snd (clearExpiredSoftLimits (snd (clearExpiredLimits accounts now)) now) ! idx))
           modelId now
      \<and> pickNext K accounts currentIndex onSave modelId softLimitEnabled now
          = useAccount (snd (clearExpiredSoftLimits (snd (clearExpiredLimits accounts now)) now))
              idx onSave now"
proof -
  let ?swept = "snd (clearExpiredSoftLimits (snd (clearExpiredLimits accounts now)) now)"
  have len: "length ?swept = length accounts"
    by (simp add: clearExpiredLimits_snd clearExpiredSoftLimits_snd)
  from assms obtain ok idx where hit: "scanForward ok ?swept
        (if currentIndex \<ge> length ?swept then 0 else currentIndex) 1 = Some idx"
      and ok: "\<And>x. ok x \<Longrightarrow> isAccountUsable x modelId now"
      and r: "pickNext K accounts currentIndex onSave modelId softLimitEnabled now
                = useAccount ?swept idx onSave now"
    by (auto simp: pickNext_def Let_def isAccountPreferred_usable
             split: if_splits option.splits)
  from scanForward_Some[OF hit] ok have "isAccountUsable (elemAt ?swept idx) modelId now"
    by blast
  from isAccountUsable_elemAt[OF this] len r show ?thesis by auto
qed

text \<open>
  Claim C2, as stated, fails for the empty string as model id: it is falsy, so no scan
  looks at the hard limits, and an account with an active entry stored under that key
  is returned.
\<close>

theorem pickNext_empty_model_counterexample:
  "pr_account
     (pickNext exampleConstants
        [(newAccount ''a@example.com'')\<lparr>modelRateLimits := Some [('''',
            \<lparr>rl_isRateLimited = True, rl_resetTime = Some 5000\<rparr>)]\<rparr>]
        0 True (Some '''') True 1000)
   = Some ((newAccount ''a@example.com'')\<lparr>modelRateLimits := Some [('''',
            \<lparr>rl_isRateLimited = True, rl_resetTime = Some 5000\<rparr>)], lastUsed := Some 1000\<rparr>)
   \<and> rateLimitEntry
        ((newAccount ''a@example.com'')\<lparr>modelRateLimits := Some [('''',
            \<lparr>rl_isRateLimited = True, rl_resetTime = Some 5000\<rparr>)], lastUsed := Some 1000\<rparr>) ''''
       = Some \<lparr>rl_isRateLimited = True, rl_resetTime = Some 5000\<rparr>
   \<and> (5000 :: int) > 1000"
  by (simp add: pickNext_def clearExpiredLimits_def clearAccountLimits_def limitExpired_def
        clearExpiredSoftLimits_def clearAccountSoftLimits_def getAvailableAccounts_def
        truthyStr_def toNumber_def isAccountUsable_def scanForward.simps elemAt_def
        useAccount_def rateLimitEntry_def newAccount_def)

text \<open>
  Claim C2 (amended): whenever \<open>pickNext\<close> returns an account, that account is not
  invalid and, when the queried model id is a non-empty string, it has no hard-limit
  entry for that model that is limited with a reset time still ahead of \<open>now\<close>. The
  account returned is the one at the new cursor, and the account passed in at that
  position was usable as well.
\<close>

theorem pickNext_returns_usable:
  assumes "pr_account (pickNext K accounts currentIndex onSave modelId softLimitEnabled now) = Some a"
  shows "isInvalid a = False
    \<and> (\<forall>m limit. modelId = Some m \<and> m \<noteq> [] \<and> rateLimitEntry a m = Some limit
          \<longrightarrow> \<not> (rl_isRateLimited limit \<and> (\<exists>t. rl_resetTime limit = Some t \<and> t > now)))
    \<and> elemAt (pr_accounts (pickNext K accounts currentIndex onSave modelId softLimitEnabled now))
         (pr_newIndex (pickNext K accounts currentIndex onSave modelId softLimitEnabled now))
        = Some a
    \<and> pr_newIndex (pickNext K accounts currentIndex onSave modelId softLimitEnabled now)
        < length accounts
    \<and> isAccountUsable
         (Some (accounts ! pr_newIndex (pickNext K accounts currentIndex onSave modelId
                                          softLimitEnabled now)))
         modelId now"
proof -
  let ?swept = "snd (clearExpiredSoftLimits (snd (clearExpiredLimits accounts now)) now)"
  let ?r = "pickNext K accounts currentIndex onSave modelId softLimitEnabled now"
  have len: "length ?swept = length accounts"
    by (simp add: clearExpiredLimits_snd clearExpiredSoftLimits_snd)
  from pickNext_Some[OF assms] obtain idx where idx: "idx < length accounts"
      and u: "isAccountUsable (Some (?swept ! idx)) modelId now"
      and r: "?r = useAccount ?swept idx onSave now"
    by blast
  from idx len have r': "?r = \<lparr>pr_account = Some ((?swept ! idx)\<lparr>lastUsed := Some now\<rparr>),
        pr_newIndex = idx,
        pr_accounts = ?swept[idx := (?swept ! idx)\<lparr>lastUsed := Some now\<rparr>],
        pr_saves = (if onSave then 1 else 0)\<rparr>"
    by (simp add: r useAccount_result)
  from assms r' have a: "a = (?swept ! idx)\<lparr>lastUsed := Some now\<rparr>" by simp
  from u a have ua: "isAccountUsable (Some a) modelId now"
    by (simp add: isAccountUsable_lastUsed)
  have "?swept ! idx = snd (clearAccountSoftLimits now (snd (clearAccountLimits now (accounts ! idx))))"
    using idx by (simp add: clearExpiredLimits_snd clearExpiredSoftLimits_snd)
  with u have u0: "isAccountUsable (Some (accounts ! idx)) modelId now"
    by (simp add: isAccountUsable_sweep)
  have inv: "isInvalid a = False"
    using ua by (simp add: isAccountUsable_def split: if_splits)
  have lim: "\<forall>m limit. modelId = Some m \<and> m \<noteq> [] \<and> rateLimitEntry a m = Some limit
          \<longrightarrow> \<not> (rl_isRateLimited limit \<and> (\<exists>t. rl_resetTime limit = Some t \<and> t > now))"
    using ua
    by (auto simp: isAccountUsable_def truthyStr_def propertyKey_def toNumber_def
             split: if_splits)
  have at: "elemAt (pr_accounts ?r) (pr_newIndex ?r) = Some a"
    using idx len a by (simp add: r' elemAt_def)
  show ?thesis
    using inv lim at idx u0 by (simp add: r')
qed

theorem pickNext_returns_usable_witness:
  "pr_account
     (pickNext exampleConstants
        [(newAccount ''a@example.com'')\<lparr>isInvalid := True\<rparr>,
         (newAccount ''b@example.com'')\<lparr>modelRateLimits := Some [(''m'',
            \<lparr>rl_isRateLimited = True, rl_resetTime = Some 5000\<rparr>)]\<rparr>,
         newAccount ''c@example.com'']
        0 True (Some ''m'') True 1000)
   = Some ((newAccount ''c@example.com'')\<lparr>lastUsed := Some 1000\<rparr>)
   \<and> isInvalid ((newAccount ''c@example.com'')\<lparr>lastUsed := Some 1000\<rparr>) = False
   \<and> pr_newIndex
     (pickNext exampleConstants
        [(newAccount ''a@example.com'')\<lparr>isInvalid := True\<rparr>,
         (newAccount ''b@example.com'')\<lparr>modelRateLimits := Some [(''m'',
            \<lparr>rl_isRateLimited = True, rl_resetTime = Some 5000\<rparr>)]\<rparr>,
         newAccount ''c@example.com'']
        0 True (Some ''m'') True 1000) = 2"
proof -
  have r: "pickNext exampleConstants
        [(newAccount ''a@example.com'')\<lparr>isInvalid := True\<rparr>,
         (newAccount ''b@example.com'')\<lparr>modelRateLimits := Some [(''m'',
            \<lparr>rl_isRateLimited = True, rl_resetTime = Some 5000\<rparr>)]\<rparr>,
         newAccount ''c@example.com'']
        0 True (Some ''m'') True 1000
     = \<lparr>pr_account = Some ((newAccount ''c@example.com'')\<lparr>lastUsed := Some 1000\<rparr>),
        pr_newIndex = 2,
        pr_accounts =
          [(newAccount ''a@example.com'')\<lparr>isInvalid := True\<rparr>,
           (newAccount ''b@example.com'')\<lparr>modelRateLimits := Some [(''m'',
              \<lparr>rl_isRateLimited = True, rl_resetTime = Some 5000\<rparr>)]\<rparr>,
           (newAccount ''c@example.com'')\<lparr>lastUsed := Some 1000\<rparr>],
        pr_saves = 1\<rparr>"
    by (simp add: pickNext_def clearExpiredLimits_def clearAccountLimits_def limitExpired_def
        clearExpiredSoftLimits_def clearAccountSoftLimits_def getAvailableAccounts_def
        getPreferredAccounts_def isSoftLimited_def isAccountPreferred_def propertyKey_def
        truthyStr_def toNumber_def isAccountUsable_def scanForward.simps elemAt_def
        useAccount_def rateLimitEntry_def newAccount_def exampleConstants_def)
  from pickNext_returns_usable
         [of exampleConstants
            "[(newAccount ''a@example.com'')\<lparr>isInvalid := True\<rparr>,
              (newAccount ''b@example.com'')\<lparr>modelRateLimits := Some [(''m'',
                 \<lparr>rl_isRateLimited = True, rl_resetTime = Some 5000\<rparr>)]\<rparr>,
              newAccount ''c@example.com'']"
            0 True "Some ''m''" True 1000
            "(newAccount ''c@example.com'')\<lparr>lastUsed := Some 1000\<rparr>"]
  show ?thesis by (simp add: r)
qed

text \<open>
  Which scan decides: the scan for preferred accounts when soft limits are enabled, a
  model is given and some account is preferred; the scan for usable accounts otherwise.
  In both cases the first hit in forward order from the clamped cursor is taken.
\<close>

lemma pickNext_first_hit:
  fixes accounts :: "'a account_scheme list" and now :: int and currentIndex :: nat
    and softLimitEnabled :: bool and modelId :: "string option" and K :: constants
  defines "swept \<equiv> snd (clearExpiredSoftLimits (snd (clearExpiredLimits accounts now)) now)"
  defines "n \<equiv> length accounts"
  defines "index \<equiv> (if currentIndex \<ge> n then 0 else currentIndex)"
  defines "preferredFirst \<equiv> softLimitEnabled \<and> truthyStr modelId
                              \<and> (\<exists>b \<in> set swept. isAccountPreferred K (Some b) modelId now)"
  defines "ok \<equiv> (\<lambda>a. if preferredFirst then isAccountPreferred K (Some a) modelId now
                        else isAccountUsable (Some a) modelId now)"
  assumes avail: "getAvailableAccounts accounts modelId now \<noteq> []"
  shows "\<exists>i. 1 \<le> i \<and> i \<le> n
           \<and> ok (swept ! ((index + i) mod n))
           \<and> (\<forall>j. 1 \<le> j \<and> j < i \<longrightarrow> \<not> ok (swept ! ((index + j) mod n)))
           \<and> pickNext K accounts currentIndex onSave modelId softLimitEnabled now
               = useAccount swept ((index + i) mod n) onSave now"
proof -
  have len: "length swept = n"
    by (simp add: swept_def n_def clearExpiredLimits_snd clearExpiredSoftLimits_snd)
  have avail': "getAvailableAccounts swept modelId now \<noteq> []"
    using avail by (simp add: swept_def getAvailableAccounts_sweep)
  then have "swept \<noteq> []" by (auto simp: getAvailableAccounts_def)
  with len have n: "0 < n" by (cases swept) auto
  then have index: "index < length swept" by (simp add: index_def len)
  have index': "(if currentIndex \<ge> length swept then 0 else currentIndex) = index"
    by (simp add: index_def len)
  have usableEx: "\<exists>a \<in> set swept. isAccountUsable (Some a) modelId now"
    using avail' by (simp add: getAvailableAccounts_filter filter_empty_conv)
  have pref: "(getPreferredAccounts swept modelId (SOFT_LIMIT_THRESHOLD K) now \<noteq> [])
                = (\<exists>b \<in> set swept. isAccountPreferred K (Some b) modelId now)"
    by (simp add: getPreferredAccounts_filter[where K = K] filter_empty_conv)
  show ?thesis
  proof (cases preferredFirst)
    case True
    then have ex: "\<exists>a \<in> set swept. isAccountPreferred K (Some a) modelId now"
      by (simp add: preferredFirst_def)
    from scanForward_first_hit[of index swept "\<lambda>x. isAccountPreferred K x modelId now",
           OF index ex]
    obtain i where i: "1 \<le> i" "i \<le> n"
        "scanForward (\<lambda>x. isAccountPreferred K x modelId now) swept index 1
           = Some ((index + i) mod n)"
        "isAccountPreferred K (Some (swept ! ((index + i) mod n))) modelId now"
        "\<forall>j. 1 \<le> j \<and> j < i \<longrightarrow>
              \<not> isAccountPreferred K (Some (swept ! ((index + j) mod n))) modelId now"
      unfolding len by blast
    have "pickNext K accounts currentIndex onSave modelId softLimitEnabled now
            = useAccount swept ((index + i) mod n) onSave now"
      using True avail' pref i(3)
      by (simp add: pickNext_def Let_def swept_def[symmetric] index' preferredFirst_def)
    with i True show ?thesis
      by (intro exI[of _ i]) (simp add: ok_def)
  next
    case False
    from scanForward_first_hit[of index swept "\<lambda>x. isAccountUsable x modelId now",
           OF index usableEx]
    obtain i where i: "1 \<le> i" "i \<le> n"
        "scanForward (\<lambda>x. isAccountUsable x modelId now) swept index 1
           = Some ((index + i) mod n)"
        "isAccountUsable (Some (swept ! ((index + i) mod n))) modelId now"
        "\<forall>j. 1 \<le> j \<and> j < i \<longrightarrow>
              \<not> isAccountUsable (Some (swept ! ((index + j) mod n))) modelId now"
      unfolding len by blast
    have "pickNext K accounts currentIndex onSave modelId softLimitEnabled now
            = useAccount swept ((index + i) mod n) onSave now"
      using False avail' pref i(3)
      by (auto simp: pickNext_def Let_def swept_def[symmetric] index' preferredFirst_def)
    with i False show ?thesis
      by (intro exI[of _ i]) (simp add: ok_def)
  qed
qed
text \<open>
  Claim C3: when some account is hard-available, \<open>pickNext\<close> returns the account at the
  smallest step offset \<open>i\<close> in \<open>1..n\<close> from the clamped cursor, in forward wrap-around
  order, that passes the deciding test: preferred (usable and not soft-limited) when
  soft limits are enabled, a model is given and a preferred account exists, usable
  otherwise. The new cursor is that account's index. The tests read the accounts as
  they are after the sweep of expired entries that \<open>pickNext\<close> starts with; the sweep
  changes the outcome of neither test (\<open>isAccountUsable_sweep\<close>,
  \<open>isAccountPreferred_sweep\<close>).

  In particular: three accounts A, B, C, cursor at A, A marked hard-limited for model
  \<open>m\<close> with a 1000 ms reset; \<open>pickNext\<close> returns B with new cursor 1. And the rule is
  not "lowest index": with all three usable and the cursor at B, it returns C at index 2
  although A at index 0 is usable.
\<close>

theorem pickNext_forward_order:
  fixes accounts :: "'a account_scheme list" and now :: int and currentIndex :: nat
    and softLimitEnabled :: bool and modelId :: "string option" and K :: constants
    and onSave :: bool
  defines "swept \<equiv> snd (clearExpiredSoftLimits (snd (clearExpiredLimits accounts now)) now)"
  defines "n \<equiv> length accounts"
  defines "index \<equiv> (if currentIndex \<ge> n then 0 else currentIndex)"
  defines "preferredFirst \<equiv> softLimitEnabled \<and> truthyStr modelId
                              \<and> (\<exists>b \<in> set swept. isAccountPreferred K (Some b) modelId now)"
  defines "ok \<equiv> (\<lambda>a. if preferredFirst then isAccountPreferred K (Some a) modelId now
                        else isAccountUsable (Some a) modelId now)"
  defines "r \<equiv> pickNext K accounts currentIndex onSave modelId softLimitEnabled now"
  shows "(getAvailableAccounts accounts modelId now \<noteq> [] \<longrightarrow>
           (\<exists>i. 1 \<le> i \<and> i \<le> n
              \<and> ok (swept ! ((index + i) mod n))
              \<and> (\<forall>j. 1 \<le> j \<and> j < i \<longrightarrow> \<not> ok (swept ! ((index + j) mod n)))
              \<and> pr_newIndex r = (index + i) mod n
              \<and> pr_account r = Some ((swept ! ((index + i) mod n))\<lparr>lastUsed := Some now\<rparr>)))
    \<and> pr_account
         (pickNext exampleConstants
            (snd (markRateLimited exampleConstants
                    [newAccount ''a@example.com'', newAccount ''b@example.com'',
                     newAccount ''c@example.com'']
                    ''a@example.com'' (Some 1000) \<lparr>cooldownDurationMs = None\<rparr> (Some ''m'') 5000))
            0 True (Some ''m'') True 5100)
        = Some ((newAccount ''b@example.com'')\<lparr>lastUsed := Some 5100\<rparr>)
    \<and> pr_newIndex
         (pickNext exampleConstants
            (snd (markRateLimited exampleConstants
                    [newAccount ''a@example.com'', newAccount ''b@example.com'',
                     newAccount ''c@example.com'']
                    ''a@example.com'' (Some 1000) \<lparr>cooldownDurationMs = None\<rparr> (Some ''m'') 5000))
            0 True (Some ''m'') True 5100)
        = 1
    \<and> pr_newIndex
         (pickNext exampleConstants
            [newAccount ''a@example.com'', newAccount ''b@example.com'',
             newAccount ''c@example.com'']
            1 True (Some ''m'') True 5100)
        = 2
    \<and> isAccountUsable (Some (newAccount ''a@example.com'')) (Some ''m'') 5100"
proof (intro conjI impI)
  assume avail: "getAvailableAccounts accounts modelId now \<noteq> []"
  from pickNext_first_hit[OF avail, where K = K and softLimitEnabled = softLimitEnabled
         and currentIndex = currentIndex and onSave = onSave]
  obtain i where i: "1 \<le> i" "i \<le> n" "ok (swept ! ((index + i) mod n))"
      "\<forall>j. 1 \<le> j \<and> j < i \<longrightarrow> \<not> ok (swept ! ((index + j) mod n))"
      "r = useAccount swept ((index + i) mod n) onSave now"
    unfolding swept_def n_def index_def preferredFirst_def ok_def r_def by blast
  have len: "length swept = n"
    by (simp add: swept_def n_def clearExpiredLimits_snd clearExpiredSoftLimits_snd)
  from i(1,2) have "(index + i) mod n < length swept" by (simp add: len)
  from useAccount_result[OF this] i(5)
  have "pr_newIndex r = (index + i) mod n"
    and "pr_account r = Some ((swept ! ((index + i) mod n))\<lparr>lastUsed := Some now\<rparr>)"
    by simp_all
  with i show "\<exists>i. 1 \<le> i \<and> i \<le> n
              \<and> ok (swept ! ((index + i) mod n))
              \<and> (\<forall>j. 1 \<le> j \<and> j < i \<longrightarrow> \<not> ok (swept ! ((index + j) mod n)))
              \<and> pr_newIndex r = (index + i) mod n
              \<and> pr_account r = Some ((swept ! ((index + i) mod n))\<lparr>lastUsed := Some now\<rparr>)"
    by (intro exI[of _ i]) simp
next
  have marked: "snd (markRateLimited exampleConstants
                    [newAccount ''a@example.com'', newAccount ''b@example.com'',
                     newAccount ''c@example.com'']
                    ''a@example.com'' (Some 1000) \<lparr>cooldownDurationMs = None\<rparr> (Some ''m'') 5000)
     = [(newAccount ''a@example.com'')\<lparr>modelRateLimits := Some [(''m'',
           \<lparr>rl_isRateLimited = True, rl_resetTime = Some 6000\<rparr>)]\<rparr>,
        newAccount ''b@example.com'', newAccount ''c@example.com'']"
    by (simp add: markRateLimited_def orElse_def propertyKey_def newAccount_def)
  have picked: "pickNext exampleConstants
        [(newAccount ''a@example.com'')\<lparr>modelRateLimits := Some [(''m'',
           \<lparr>rl_isRateLimited = True, rl_resetTime = Some 6000\<rparr>)]\<rparr>,
        newAccount ''b@example.com'', newAccount ''c@example.com'']
        0 True (Some ''m'') True 5100
     = \<lparr>pr_account = Some ((newAccount ''b@example.com'')\<lparr>lastUsed := Some 5100\<rparr>),
        pr_newIndex = 1,
        pr_accounts =
          [(newAccount ''a@example.com'')\<lparr>modelRateLimits := Some [(''m'',
             \<lparr>rl_isRateLimited = True, rl_resetTime = Some 6000\<rparr>)]\<rparr>,
           (newAccount ''b@example.com'')\<lparr>lastUsed := Some 5100\<rparr>,
           newAccount ''c@example.com''],
        pr_saves = 1\<rparr>"
    by (simp add: pickNext_def clearExpiredLimits_def clearAccountLimits_def limitExpired_def
        clearExpiredSoftLimits_def clearAccountSoftLimits_def getAvailableAccounts_def
        getPreferredAccounts_def isSoftLimited_def isAccountPreferred_def propertyKey_def
        truthyStr_def toNumber_def isAccountUsable_def scanForward.simps elemAt_def
        useAccount_def rateLimitEntry_def newAccount_def exampleConstants_def)
  show "pr_account
         (pickNext exampleConstants
            (snd (markRateLimited exampleConstants
                    [newAccount ''a@example.com'', newAccount ''b@example.com'',
                     newAccount ''c@example.com'']
                    ''a@example.com'' (Some 1000) \<lparr>cooldownDurationMs = None\<rparr> (Some ''m'') 5000))
            0 True (Some ''m'') True 5100)
        = Some ((newAccount ''b@example.com'')\<lparr>lastUsed := Some 5100\<rparr>)"
    by (simp only: marked picked pick_result.simps)
  show "pr_newIndex
         (pickNext exampleConstants
            (snd (markRateLimited exampleConstants
                    [newAccount ''a@example.com'', newAccount ''b@example.com'',
                     newAccount ''c@example.com'']
                    ''a@example.com'' (Some 1000) \<lparr>cooldownDurationMs = None\<rparr> (Some ''m'') 5000))
            0 True (Some ''m'') True 5100)
        = 1"
    by (simp only: marked picked pick_result.simps)
next
  show "pr_newIndex
         (pickNext exampleConstants
            [newAccount ''a@example.com'', newAccount ''b@example.com'',
             newAccount ''c@example.com'']
            1 True (Some ''m'') True 5100)
        = 2"
    by (simp add: pickNext_def clearExpiredLimits_def clearAccountLimits_def limitExpired_def
        clearExpiredSoftLimits_def clearAccountSoftLimits_def getAvailableAccounts_def
        getPreferredAccounts_def isSoftLimited_def isAccountPreferred_def propertyKey_def
        truthyStr_def toNumber_def isAccountUsable_def scanForward.simps elemAt_def
        useAccount_def rateLimitEntry_def newAccount_def exampleConstants_def)
next
  show "isAccountUsable (Some (newAccount ''a@example.com'')) (Some ''m'') 5100"
    by (simp add: isAccountUsable_def rateLimitEntry_def truthyStr_def newAccount_def)
qed

theorem pickNext_forward_order_witness:
  "getAvailableAccounts
     [newAccount ''a@example.com'',
      (newAccount ''b@example.com'')\<lparr>modelSoftLimits := Some [(''m'',
         \<lparr>sl_isSoftLimited = True, sl_remainingFraction = 1 / 10, sl_resetTime = Some 9000,
          sl_markedAt = 900\<rparr>)]\<rparr>,
      newAccount ''c@example.com'']
     (Some ''m'') 1000 \<noteq> []
   \<and> pr_account
       (pickNext exampleConstants
          [newAccount ''a@example.com'',
           (newAccount ''b@example.com'')\<lparr>modelSoftLimits := Some [(''m'',
              \<lparr>sl_isSoftLimited = True, sl_remainingFraction = 1 / 10, sl_resetTime = Some 9000,
               sl_markedAt = 900\<rparr>)]\<rparr>,
           newAccount ''c@example.com'']
          0 True (Some ''m'') True 1000)
      = Some ((newAccount ''c@example.com'')\<lparr>lastUsed := Some 1000\<rparr>)
   \<and> pr_newIndex
       (pickNext exampleConstants
          [newAccount ''a@example.com'',
           (newAccount ''b@example.com'')\<lparr>modelSoftLimits := Some [(''m'',
              \<lparr>sl_isSoftLimited = True, sl_remainingFraction = 1 / 10, sl_resetTime = Some 9000,
               sl_markedAt = 900\<rparr>)]\<rparr>,
           newAccount ''c@example.com'']
          0 True (Some ''m'') True 1000)
      = 2"
  using pickNext_forward_order
          [where accounts = "[newAccount ''a@example.com'',
             (newAccount ''b@example.com'')\<lparr>modelSoftLimits := Some [(''m'',
                \<lparr>sl_isSoftLimited = True, sl_remainingFraction = 1 / 10, sl_resetTime = Some 9000,
                 sl_markedAt = 900\<rparr>)]\<rparr>,
             newAccount ''c@example.com'']"
           and now = 1000 and currentIndex = 0 and softLimitEnabled = True
           and modelId = "Some ''m''" and K = exampleConstants and onSave = True]
  by (simp add: pickNext_def clearExpiredLimits_def clearAccountLimits_def limitExpired_def
        clearExpiredSoftLimits_def clearAccountSoftLimits_def sweepSoftLimits_def
        softLimitExpired_def truthyNum_def getAvailableAccounts_def
        getPreferredAccounts_def isSoftLimited_def isAccountPreferred_def propertyKey_def
        truthyStr_def toNumber_def isAccountUsable_def scanForward.simps elemAt_def
        useAccount_def rateLimitEntry_def newAccount_def exampleConstants_def)

section \<open>Sticky selection\<close>

lemma shouldWaitForCurrentAccount_wait:
  assumes "elemAt accounts (if currentIndex \<ge> length accounts then 0 else currentIndex) = Some b"
    and "\<not> isInvalid b" and "truthyStr modelId"
    and "rateLimitEntry b (propertyKey modelId) = Some limit"
    and "rl_isRateLimited limit" and "rl_resetTime limit = Some t" and "t \<noteq> 0"
    and "0 < t - now" and "t - now \<le> MAX_WAIT_BEFORE_ERROR_MS K"
  shows "shouldWaitForCurrentAccount K accounts currentIndex modelId now
           = \<lparr>wr_shouldWait = True, wr_waitMs = t - now, wr_account = Some b\<rparr>"
proof -
  from assms(1) have "length accounts \<noteq> 0"
    by (auto simp: elemAt_def split: if_splits)
  then show ?thesis
    unfolding shouldWaitForCurrentAccount_def Let_def
    by (simp only: assms if_False option.case truthyNum_def toNumber_def simp_thms if_True)
qed

lemma getCurrentStickyAccount_unusable:
  assumes "length (snd (clearExpiredSoftLimits (snd (clearExpiredLimits accounts now)) now)) \<noteq> 0"
    and "\<not> isAccountUsable
             (elemAt (snd (clearExpiredSoftLimits (snd (clearExpiredLimits accounts now)) now))
                (if currentIndex
                      \<ge> length (snd (clearExpiredSoftLimits (snd (clearExpiredLimits accounts now)) now))
                 then 0 else currentIndex))
             modelId now"
  shows "getCurrentStickyAccount K accounts currentIndex onSave modelId now
      = \<lparr>sr_account = None,
         sr_newIndex =
           (if currentIndex
                 \<ge> length (snd (clearExpiredSoftLimits (snd (clearExpiredLimits accounts now)) now))
            then 0 else currentIndex),
         sr_isSoftLimited = False,
         sr_accounts = snd (clearExpiredSoftLimits (snd (clearExpiredLimits accounts now)) now),
         sr_saves = 0\<rparr>"
  unfolding getCurrentStickyAccount_def Let_def
  by (simp only: assms if_False)

text \<open>
  Claim C4, as stated, fails when the account at the cursor is invalid as well as
  hard-limited: \<open>shouldWaitForCurrentAccount\<close> answers "do not wait" for an invalid
  account before it looks at the limit, so \<open>pickStickyAccount\<close> reports no account and
  \<open>waitMs = 0\<close>, although the remaining wait is 5000 ms and within the ceiling.
\<close>

theorem pickStickyAccount_invalid_counterexample:
  "sp_account
     (pickStickyAccount exampleConstants
        [(newAccount ''a@example.com'')\<lparr>isInvalid := True, modelRateLimits := Some [(''m'',
            \<lparr>rl_isRateLimited = True, rl_resetTime = Some 6000\<rparr>)]\<rparr>,
         (newAccount ''b@example.com'')\<lparr>isInvalid := True\<rparr>,
         (newAccount ''c@example.com'')\<lparr>isInvalid := True\<rparr>]
        0 True (Some ''m'') True 1000) = None
   \<and> sp_waitMs
     (pickStickyAccount exampleConstants
        [(newAccount ''a@example.com'')\<lparr>isInvalid := True, modelRateLimits := Some [(''m'',
            \<lparr>rl_isRateLimited = True, rl_resetTime = Some 6000\<rparr>)]\<rparr>,
         (newAccount ''b@example.com'')\<lparr>isInvalid := True\<rparr>,
         (newAccount ''c@example.com'')\<lparr>isInvalid := True\<rparr>]
        0 True (Some ''m'') True 1000) = 0
   \<and> rateLimitEntry
        ((newAccount ''a@example.com'')\<lparr>isInvalid := True, modelRateLimits := Some [(''m'',
            \<lparr>rl_isRateLimited = True, rl_resetTime = Some 6000\<rparr>)]\<rparr>) ''m''
       = Some \<lparr>rl_isRateLimited = True, rl_resetTime = Some 6000\<rparr>
   \<and> (0 :: int) < 6000 - 1000
   \<and> (6000 :: int) - 1000 \<le> MAX_WAIT_BEFORE_ERROR_MS exampleConstants"
  by (simp add: pickStickyAccount_def getCurrentStickyAccount_def shouldWaitForCurrentAccount_def
        pickNext_def clearExpiredLimits_def clearAccountLimits_def limitExpired_def
        clearExpiredSoftLimits_def clearAccountSoftLimits_def getAvailableAccounts_def
        truthyStr_def toNumber_def isAccountUsable_def elemAt_def rateLimitEntry_def
        newAccount_def exampleConstants_def)

text \<open>
  Claim C4 (amended): let the account at the clamped cursor be valid and hard-limited
  for the given model, with a reset time \<open>t\<close> whose remaining wait \<open>w = t - now\<close>
  satisfies \<open>0 < w \<le> MAX_WAIT_BEFORE_ERROR_MS\<close>, and let no account be hard-available.
  Then \<open>pickStickyAccount\<close> returns no account, \<open>waitMs = w\<close>, and the cursor it was
  given. (The clock reads a time at or after the epoch, \<open>0 \<le> now\<close>.)
\<close>

theorem pickStickyAccount_waits:
  fixes accounts :: "'a account_scheme list" and now :: int and currentIndex :: nat
    and softLimitEnabled :: bool and modelId :: "string option" and K :: constants
    and onSave :: bool
  defines "index \<equiv> (if currentIndex \<ge> length accounts then 0 else currentIndex)"
  defines "r \<equiv> pickStickyAccount K accounts currentIndex onSave modelId softLimitEnabled now"
  assumes cur: "elemAt accounts index = Some a"
    and valid: "\<not> isInvalid a"
    and entry: "rateLimitEntry a (propertyKey modelId) = Some limit"
    and limited: "rl_isRateLimited limit"
    and reset: "rl_resetTime limit = Some t"
    and wait: "0 < t - now" "t - now \<le> MAX_WAIT_BEFORE_ERROR_MS K"
    and clock: "0 \<le> now"
    and none: "getAvailableAccounts accounts modelId now = []"
  shows "sp_account r = None \<and> sp_waitMs r = t - now \<and> sp_newIndex r = currentIndex"
proof -
  let ?swept = "snd (clearExpiredSoftLimits (snd (clearExpiredLimits accounts now)) now)"
  let ?g = "\<lambda>a. snd (clearAccountSoftLimits now (snd (clearAccountLimits now a)))"
  from cur have index: "index < length accounts" and a: "a = accounts ! index"
    by (auto simp: elemAt_def split: if_splits)
  have len: "length ?swept = length accounts"
    by (simp add: clearExpiredLimits_snd clearExpiredSoftLimits_snd)
  have index': "(if currentIndex \<ge> length ?swept then 0 else currentIndex) = index"
    by (simp add: index_def len)
  have nonempty: "length ?swept \<noteq> 0" using index len by (cases accounts) auto
  have sw: "?swept ! index = ?g a"
    using index a by (simp add: clearExpiredLimits_snd clearExpiredSoftLimits_snd)
  have active: "toNumber (rl_resetTime limit) > now"
    using reset wait by (simp add: toNumber_def)
  have "a \<in> set accounts" using index a by simp
  with none have "\<not> isAccountUsable (Some a) modelId now"
    by (simp add: getAvailableAccounts_filter filter_empty_conv)
  with valid have model: "truthyStr modelId"
    by (auto simp: isAccountUsable_def split: if_splits)
  have at0: "elemAt ?swept index = Some (?g a)"
    using index len by (simp add: elemAt_def sw)
  have at: "elemAt ?swept (if currentIndex \<ge> length ?swept then 0 else currentIndex) = Some (?g a)"
    unfolding index' by (rule at0)
  have unusable: "\<not> isAccountUsable
       (elemAt ?swept (if currentIndex \<ge> length ?swept then 0 else currentIndex)) modelId now"
    using \<open>\<not> isAccountUsable (Some a) modelId now\<close>
    by (simp add: at isAccountUsable_sweep)
  have sticky: "getCurrentStickyAccount K accounts currentIndex onSave modelId now
      = \<lparr>sr_account = None, sr_newIndex = index, sr_isSoftLimited = False,
         sr_accounts = ?swept, sr_saves = 0\<rparr>"
    using getCurrentStickyAccount_unusable[OF nonempty unusable, of K onSave]
    by (simp only: index')
  have none': "getAvailableAccounts ?swept modelId now = []"
    using none by (simp add: getAvailableAccounts_sweep)
  have entry': "rateLimitEntry (?g a) (propertyKey modelId) = Some limit"
    using entry limited active by (rule sweep_keeps_active_entry)
  have valid': "\<not> isInvalid (?g a)"
    using valid by (simp add: clearAccountSoftLimits_fields clearAccountLimits_fields)
  have nonzero: "t \<noteq> 0" using wait clock by simp
  have waitInfo: "shouldWaitForCurrentAccount K ?swept currentIndex modelId now
      = \<lparr>wr_shouldWait = True, wr_waitMs = t - now, wr_account = Some (?g a)\<rparr>"
    using at valid' model entry' limited reset nonzero wait
    by (rule shouldWaitForCurrentAccount_wait)
  have "r = \<lparr>sp_account = None, sp_waitMs = t - now, sp_newIndex = currentIndex,
             sp_accounts = ?swept, sp_saves = 0\<rparr>"
    unfolding r_def pickStickyAccount_def
    by (simp add: sticky none' waitInfo Let_def)
  then show ?thesis by simp
qed

theorem pickStickyAccount_waits_witness:
  "sp_account
     (pickStickyAccount exampleConstants
        [(newAccount ''a@example.com'')\<lparr>modelRateLimits := Some [(''m'',
            \<lparr>rl_isRateLimited = True, rl_resetTime = Some 6000\<rparr>)]\<rparr>,
         (newAccount ''b@example.com'')\<lparr>isInvalid := True\<rparr>,
         (newAccount ''c@example.com'')\<lparr>isInvalid := True\<rparr>]
        0 True (Some ''m'') True 1000) = None
   \<and> sp_waitMs
     (pickStickyAccount exampleConstants
        [(newAccount ''a@example.com'')\<lparr>modelRateLimits := Some [(''m'',
            \<lparr>rl_isRateLimited = True, rl_resetTime = Some 6000\<rparr>)]\<rparr>,
         (newAccount ''b@example.com'')\<lparr>isInvalid := True\<rparr>,
         (newAccount ''c@example.com'')\<lparr>isInvalid := True\<rparr>]
        0 True (Some ''m'') True 1000) = 5000
   \<and> sp_newIndex
     (pickStickyAccount exampleConstants
        [(newAccount ''a@example.com'')\<lparr>modelRateLimits := Some [(''m'',
            \<lparr>rl_isRateLimited = True, rl_resetTime = Some 6000\<rparr>)]\<rparr>,
         (newAccount ''b@example.com'')\<lparr>isInvalid := True\<rparr>,
         (newAccount ''c@example.com'')\<lparr>isInvalid := True\<rparr>]
        0 True (Some ''m'') True 1000) = 0
   \<and> getAvailableAccounts
        [(newAccount ''a@example.com'')\<lparr>modelRateLimits := Some [(''m'',
            \<lparr>rl_isRateLimited = True, rl_resetTime = Some 6000\<rparr>)]\<rparr>,
         (newAccount ''b@example.com'')\<lparr>isInvalid := True\<rparr>,
         (newAccount ''c@example.com'')\<lparr>isInvalid := True\<rparr>]
        (Some ''m'') 1000 = []"
proof -
  let ?A = "(newAccount ''a@example.com'')\<lparr>modelRateLimits := Some [(''m'',
            \<lparr>rl_isRateLimited = True, rl_resetTime = Some 6000\<rparr>)]\<rparr>"
  let ?accounts = "[?A, (newAccount ''b@example.com'')\<lparr>isInvalid := True\<rparr>,
         (newAccount ''c@example.com'')\<lparr>isInvalid := True\<rparr>]"
  have none: "getAvailableAccounts ?accounts (Some ''m'') 1000 = []"
    by (simp add: getAvailableAccounts_def truthyStr_def rateLimitEntry_def propertyKey_def
          toNumber_def newAccount_def)
  have cur: "elemAt ?accounts (if 0 \<ge> length ?accounts then 0 else 0) = Some ?A"
    by (simp add: elemAt_def)
  have valid: "\<not> isInvalid ?A" by (simp add: newAccount_def)
  have entry: "rateLimitEntry ?A (propertyKey (Some ''m''))
                 = Some \<lparr>rl_isRateLimited = True, rl_resetTime = Some 6000\<rparr>"
    by (simp add: rateLimitEntry_def propertyKey_def newAccount_def)
  from pickStickyAccount_waits
         [where accounts = ?accounts and currentIndex = 0 and modelId = "Some ''m''"
            and now = 1000 and K = exampleConstants and t = 6000 and onSave = True
            and softLimitEnabled = True, OF cur valid entry]
  have "sp_account (pickStickyAccount exampleConstants ?accounts 0 True (Some ''m'') True 1000)
          = None
        \<and> sp_waitMs (pickStickyAccount exampleConstants ?accounts 0 True (Some ''m'') True 1000)
          = 6000 - 1000
        \<and> sp_newIndex (pickStickyAccount exampleConstants ?accounts 0 True (Some ''m'') True 1000)
          = 0"
    using none by (simp add: exampleConstants_def)
  with none show ?thesis by simp
qed

end
